theory Spec2Isabelle
  imports Main "HOL-Library.Word"
begin

unbundle bit_operations_syntax

section \<open>Task switching and management (kernel/sys/task.c)\<close>

text \<open>
  A shallow embedding of \<^verbatim>\<open>kernel/sys/task.c\<close>: the address-space cloner
  (\<^verbatim>\<open>clone_directory\<close>, \<^verbatim>\<open>clone_table\<close>, \<^verbatim>\<open>free_directory\<close>),
  \<^verbatim>\<open>reap_process\<close>, \<^verbatim>\<open>fork\<close>, \<^verbatim>\<open>clone\<close>, \<^verbatim>\<open>switch_task\<close> and
  \<^verbatim>\<open>switch_next\<close>.

  The target is 32-bit x86: \<^verbatim>\<open>uintptr_t\<close>, \<^verbatim>\<open>uint32_t\<close> and every pointer are
  32-bit words, and their arithmetic wraps around. A pointer is the address it holds;
  the null pointer is 0.
\<close>

type_synonym u32 = "32 word"
type_synonym ptr = "32 word"

subsection \<open>Paging structures\<close>

text \<open>
  The header that declares \<^verbatim>\<open>page_t\<close>, \<^verbatim>\<open>page_table_t\<close> and
  \<^verbatim>\<open>page_directory_t\<close> is not part of the file. The records hold the fields the
  file reads and writes: the five access bits and the frame number of a page (a 20-bit
  field of the x86 page-table entry, so that \<^verbatim>\<open>frame * 0x1000\<close> is the frame's
  physical address), the 1024 pages of a table, and the two parallel arrays and the
  physical address of a directory. A C array of 1024 entries is a function of the index;
  the loops of the file never leave 0..1023.
\<close>

record page_t =
  present :: bool
  rw :: bool
  user :: bool
  accessed :: bool
  dirty :: bool
  frame :: "20 word"

record page_table_t =
  pages :: "nat \<Rightarrow> page_t"

record page_directory_t =
  tables :: "nat \<Rightarrow> ptr"
  physical_tables :: "nat \<Rightarrow> u32"
  physical_address :: u32

subsection \<open>Processes\<close>

record image_t =
  stack :: u32

record thread_t =
  esp :: u32
  ebp :: u32
  eip :: u32
  page_directory :: ptr

record fd_table_t =
  entries :: ptr

text \<open>
  The fields of \<^verbatim>\<open>process_t\<close> that the file uses. \<^verbatim>\<open>id\<close> and \<^verbatim>\<open>image\<close> are
  written \<open>id'\<close> and \<open>image'\<close>: the plain names are constants of HOL.
\<close>

record process_t =
  id' :: u32
  image' :: image_t
  thread :: thread_t
  fds :: fd_table_t
  status :: int
  finished :: bool
  wait_queue :: ptr
  syscall_registers :: ptr

text \<open>
  The local variables of \<^verbatim>\<open>fork\<close> and \<^verbatim>\<open>clone\<close> that are live across
  \<^verbatim>\<open>read_eip()\<close>. They live in the caller's kernel stack, which the parent path
  copies into the child.
\<close>

record locals_t =
  l_magic :: u32
  l_parent :: ptr
  l_directory :: ptr
  l_new_proc :: ptr

subsection \<open>The kernel state\<close>

text \<open>
  What the file does to its collaborators (the heap, the frame allocator, the process
  queues, the interrupt flag, the console) is recorded as a trace of events, oldest first.
\<close>

datatype event =
    EvKvmalloc nat ptr u32
  | EvAllocFrame page_t
  | EvCopyPage u32 u32
  | EvFreeFrame "20 word"
  | EvFree ptr
  | EvListFree ptr
  | EvSpawn ptr ptr
  | EvReady ptr
  | EvIrqOff
  | EvIrqRes
  | EvKprintf u32

text \<open>
  Memory is an explicit store, one typed heap per struct, indexed by address, so that
  two pointers holding the same address denote the same object. \<open>stack_mem\<close> is the
  part of kernel-stack memory that holds frames of locals: a frame is addressed by the
  frame pointer (\<^verbatim>\<open>ebp\<close>) of its activation. \<open>regs_esp\<close> is the \<^verbatim>\<open>esp\<close> field
  of the \<^verbatim>\<open>struct regs\<close> at an address. The \<open>cpu_\<close> fields are the machine
  registers the file reads and loads with inline assembly.
\<close>

record kernel_state =
  table_heap :: "ptr \<Rightarrow> page_table_t"
  dir_heap :: "ptr \<Rightarrow> page_directory_t"
  proc_heap :: "ptr \<Rightarrow> process_t"
  stack_mem :: "u32 \<Rightarrow> locals_t"
  regs_esp :: "ptr \<Rightarrow> u32"
  kernel_directory :: ptr
  current_directory :: ptr
  current_process :: ptr
  ready_queue :: "ptr list"
  reap_queue :: "ptr list"
  interrupts :: bool
  tss_esp0 :: u32
  cpu_esp :: u32
  cpu_ebp :: u32
  cpu_eip :: u32
  cpu_eax :: u32
  cpu_cr3 :: u32
  trace :: "event list"

text \<open>
  The collaborators whose answers the file cannot determine are parameters: the size of
  a kernel stack, the bounds of the kernel text (\<^verbatim>\<open>&code\<close>, \<^verbatim>\<open>&end\<close>), and the
  three allocating helpers. Each helper may inspect the whole state (which includes the
  history of events); its effect on the state is the one the call site shows.
  \<^item> \<open>kvmalloc_p s sz\<close> is the virtual and the physical address of the new block;
  \<^item> \<open>alloc_frame s page is_kernel is_writeable\<close> is what the call leaves in the page
    it is given a pointer to;
  \<^item> \<open>spawn_process s parent\<close> is the address of the new process record and its
    initial contents.
\<close>

record extern =
  KERNEL_STACK_SIZE :: u32
  code_start :: u32
  code_end :: u32
  kvmalloc_p :: "kernel_state \<Rightarrow> nat \<Rightarrow> ptr \<times> u32"
  alloc_frame :: "kernel_state \<Rightarrow> page_t \<Rightarrow> int \<Rightarrow> int \<Rightarrow> page_t"
  spawn_process :: "kernel_state \<Rightarrow> ptr \<Rightarrow> ptr \<times> process_t"

datatype error = AssertionFailed string

definition TASK_MAGIC :: u32 where
  "TASK_MAGIC = 0xDEADBEEF"

text \<open>\<^verbatim>\<open>sizeof(page_table_t)\<close>, \<^verbatim>\<open>sizeof(page_directory_t)\<close> and the offset of
  \<^verbatim>\<open>physical_tables\<close> in a directory, for 4-byte entries.\<close>

definition sizeof_page_table_t :: nat where
  "sizeof_page_table_t = 4096"

definition sizeof_page_directory_t :: nat where
  "sizeof_page_directory_t = 8196"

definition physical_tables_offset :: u32 where
  "physical_tables_offset = 0x1000"

subsection \<open>Access to the heaps\<close>

definition get_page :: "kernel_state \<Rightarrow> ptr \<Rightarrow> nat \<Rightarrow> page_t" where
  "get_page s t i = pages (table_heap s t) i"

definition upd_page :: "ptr \<Rightarrow> nat \<Rightarrow> (page_t \<Rightarrow> page_t) \<Rightarrow> kernel_state \<Rightarrow> kernel_state" where
  "upd_page t i f s =
     s\<lparr>table_heap := (table_heap s)
         (t := (table_heap s t)\<lparr>pages := (pages (table_heap s t))(i := f (pages (table_heap s t) i))\<rparr>)\<rparr>"

definition upd_dir :: "ptr \<Rightarrow> (page_directory_t \<Rightarrow> page_directory_t) \<Rightarrow> kernel_state \<Rightarrow> kernel_state" where
  "upd_dir d f s = s\<lparr>dir_heap := (dir_heap s)(d := f (dir_heap s d))\<rparr>"

definition upd_proc :: "ptr \<Rightarrow> (process_t \<Rightarrow> process_t) \<Rightarrow> kernel_state \<Rightarrow> kernel_state" where
  "upd_proc p f s = s\<lparr>proc_heap := (proc_heap s)(p := f (proc_heap s p))\<rparr>"

definition emit :: "event \<Rightarrow> kernel_state \<Rightarrow> kernel_state" where
  "emit e s = s\<lparr>trace := trace s @ [e]\<rparr>"

definition zero_page :: page_t where
  "zero_page = \<lparr>present = False, rw = False, user = False, accessed = False, dirty = False, frame = 0\<rparr>"

definition zero_table :: page_table_t where
  "zero_table = \<lparr>pages = (\<lambda>_. zero_page)\<rparr>"

definition zero_directory :: page_directory_t where
  "zero_directory = \<lparr>tables = (\<lambda>_. 0), physical_tables = (\<lambda>_. 0), physical_address = 0\<rparr>"

subsection \<open>Collaborators outside the file\<close>

text \<open>Modelled from the spec: \<^verbatim>\<open>copy_page_physical(src, dst)\<close> asks the frame allocator
  to copy the 4 KiB frame at physical address \<open>src\<close> to the one at \<open>dst\<close>. Physical
  memory is not part of the state; the request is recorded.\<close>

definition copy_page_physical :: "u32 \<Rightarrow> u32 \<Rightarrow> kernel_state \<Rightarrow> kernel_state" where
  "copy_page_physical src dst s = emit (EvCopyPage src dst) s"

text \<open>Modelled from the spec: \<^verbatim>\<open>free_frame(&page)\<close> returns the frame of the page to the
  allocator. The frame number handed back is recorded.\<close>

definition free_frame :: "ptr \<Rightarrow> nat \<Rightarrow> kernel_state \<Rightarrow> kernel_state" where
  "free_frame t j s = emit (EvFreeFrame (frame (get_page s t j))) s"

text \<open>Modelled from the spec: \<^verbatim>\<open>free(p)\<close> returns the block at \<open>p\<close> to the kernel heap.\<close>

definition free :: "ptr \<Rightarrow> kernel_state \<Rightarrow> kernel_state" where
  "free p s = emit (EvFree p) s"

text \<open>Modelled from the spec: \<^verbatim>\<open>list_free(l)\<close> frees the contents of the list at \<open>l\<close>.\<close>

definition list_free :: "ptr \<Rightarrow> kernel_state \<Rightarrow> kernel_state" where
  "list_free l s = emit (EvListFree l) s"

text \<open>The call \<^verbatim>\<open>kvmalloc_p(size, &phys)\<close>: the answer of the parameter, recorded.\<close>

definition do_kvmalloc_p :: "extern \<Rightarrow> nat \<Rightarrow> kernel_state \<Rightarrow> ptr \<times> u32 \<times> kernel_state" where
  "do_kvmalloc_p ops sz s =
     (let (v, phys) = kvmalloc_p ops s sz
      in (v, phys, emit (EvKvmalloc sz v phys) s))"

text \<open>The call \<^verbatim>\<open>alloc_frame(&table->pages[i], is_kernel, is_writeable)\<close>: the page
  the parameter answers is stored in the entry, and recorded.\<close>

definition do_alloc_frame :: "extern \<Rightarrow> ptr \<Rightarrow> nat \<Rightarrow> int \<Rightarrow> int \<Rightarrow> kernel_state \<Rightarrow> kernel_state" where
  "do_alloc_frame ops t i is_kernel is_writeable s =
     (let pg = alloc_frame ops s (get_page s t i) is_kernel is_writeable
      in emit (EvAllocFrame pg) (upd_page t i (\<lambda>_. pg) s))"

text \<open>The call \<^verbatim>\<open>spawn_process(parent)\<close>: the new record is stored at the address the
  parameter answers, and recorded.\<close>

definition do_spawn_process :: "extern \<Rightarrow> ptr \<Rightarrow> kernel_state \<Rightarrow> ptr \<times> kernel_state" where
  "do_spawn_process ops parent s =
     (let (p, new) = spawn_process ops s parent
      in (p, emit (EvSpawn parent p) (s\<lparr>proc_heap := (proc_heap s)(p := new)\<rparr>)))"

text \<open>Modelled from the spec: \<^verbatim>\<open>set_process_environment(proc, dir)\<close> sets
  \<^verbatim>\<open>thread.page_directory = dir\<close>, without copying.\<close>

definition set_process_environment :: "ptr \<Rightarrow> ptr \<Rightarrow> kernel_state \<Rightarrow> kernel_state" where
  "set_process_environment proc dir s =
     upd_proc proc (\<lambda>p. p\<lparr>thread := (thread p)\<lparr>page_directory := dir\<rparr>\<rparr>) s"

text \<open>Modelled from the spec: the ready queue and the reapable queue are kept outside the
  file. \<^verbatim>\<open>make_process_ready\<close> enqueues a process as ready; \<^verbatim>\<open>process_available\<close>
  says whether a process is ready; \<^verbatim>\<open>next_ready_process\<close> pops one (the null pointer
  when there is none); \<^verbatim>\<open>should_reap\<close> says whether a process is reapable;
  \<^verbatim>\<open>next_reapable_process\<close> takes one from the reapable queue.\<close>

definition make_process_ready :: "ptr \<Rightarrow> kernel_state \<Rightarrow> kernel_state" where
  "make_process_ready p s = emit (EvReady p) (s\<lparr>ready_queue := ready_queue s @ [p]\<rparr>)"

definition process_available :: "kernel_state \<Rightarrow> bool" where
  "process_available s = (ready_queue s \<noteq> [])"

definition next_ready_process :: "kernel_state \<Rightarrow> ptr \<times> kernel_state" where
  "next_ready_process s =
     (case ready_queue s of [] \<Rightarrow> (0, s) | p # q \<Rightarrow> (p, s\<lparr>ready_queue := q\<rparr>))"

definition should_reap :: "kernel_state \<Rightarrow> bool" where
  "should_reap s = (reap_queue s \<noteq> [])"

definition next_reapable_process :: "kernel_state \<Rightarrow> ptr \<times> kernel_state" where
  "next_reapable_process s =
     (case reap_queue s of [] \<Rightarrow> (0, s) | p # q \<Rightarrow> (p, s\<lparr>reap_queue := q\<rparr>))"

text \<open>Modelled from the spec: \<^verbatim>\<open>IRQ_OFF\<close> disables interrupts and \<^verbatim>\<open>IRQ_RES\<close>
  re-enables them.\<close>

definition IRQ_OFF :: "kernel_state \<Rightarrow> kernel_state" where
  "IRQ_OFF s = emit EvIrqOff (s\<lparr>interrupts := False\<rparr>)"

definition IRQ_RES :: "kernel_state \<Rightarrow> kernel_state" where
  "IRQ_RES s = emit EvIrqRes (s\<lparr>interrupts := True\<rparr>)"

text \<open>Modelled from the spec: \<^verbatim>\<open>set_kernel_stack(stack)\<close> programs the kernel-stack
  pointer of the TSS.\<close>

definition set_kernel_stack :: "u32 \<Rightarrow> kernel_state \<Rightarrow> kernel_state" where
  "set_kernel_stack st s = s\<lparr>tss_esp0 := st\<rparr>"

text \<open>\<^verbatim>\<open>kprintf\<close> with one value to print.\<close>

definition kprintf :: "u32 \<Rightarrow> kernel_state \<Rightarrow> kernel_state" where
  "kprintf v s = emit (EvKprintf v) s"

text \<open>\<^verbatim>\<open>memcpy(dst, src, n)\<close> on a memory indexed by address: the \<open>n\<close> addresses from
  \<open>dst\<close> receive what the old memory holds at the same offset from \<open>src\<close>.\<close>

definition memcpy :: "u32 \<Rightarrow> u32 \<Rightarrow> u32 \<Rightarrow> (u32 \<Rightarrow> 'a) \<Rightarrow> (u32 \<Rightarrow> 'a)" where
  "memcpy dst src n m = (\<lambda>a. if a - dst < n then m (src + (a - dst)) else m a)"

subsection \<open>clone\_table (lines 90-116)\<close>

text \<open>The body of the loop (lines 100-113), for one index \<open>i\<close>. Every read goes
  through the heap as it is at that point, as the C reads through \<^verbatim>\<open>src\<close> and
  \<^verbatim>\<open>table\<close>.\<close>

definition clone_table_entry :: "extern \<Rightarrow> ptr \<Rightarrow> ptr \<Rightarrow> nat \<Rightarrow> kernel_state \<Rightarrow> kernel_state" where
  "clone_table_entry ops src table i s =
     (if frame (get_page s src i) = 0 then s
      else
        let s1 = do_alloc_frame ops table i 0 0 s;
            s2 = (if present (get_page s1 src i) then upd_page table i (\<lambda>p. p\<lparr>present := True\<rparr>) s1 else s1);
            s3 = (if rw (get_page s2 src i) then upd_page table i (\<lambda>p. p\<lparr>rw := True\<rparr>) s2 else s2);
            s4 = (if user (get_page s3 src i) then upd_page table i (\<lambda>p. p\<lparr>user := True\<rparr>) s3 else s3);
            s5 = (if accessed (get_page s4 src i) then upd_page table i (\<lambda>p. p\<lparr>accessed := True\<rparr>) s4 else s4);
            s6 = (if dirty (get_page s5 src i) then upd_page table i (\<lambda>p. p\<lparr>dirty := True\<rparr>) s5 else s5)
        in copy_page_physical (ucast (frame (get_page s6 src i)) * 0x1000)
             (ucast (frame (get_page s6 table i)) * 0x1000) s6)"

definition clone_table_loop :: "extern \<Rightarrow> ptr \<Rightarrow> ptr \<Rightarrow> nat \<Rightarrow> kernel_state \<Rightarrow> kernel_state" where
  "clone_table_loop ops src table n s = fold (clone_table_entry ops src table) [0..<n] s"

text \<open>Lines 96-97: the new table, cleared.\<close>

definition clone_table_init :: "extern \<Rightarrow> kernel_state \<Rightarrow> ptr \<times> u32 \<times> kernel_state" where
  "clone_table_init ops s =
     (let (table, physAddr, s1) = do_kvmalloc_p ops sizeof_page_table_t s
      in (table, physAddr, s1\<lparr>table_heap := (table_heap s1)(table := zero_table)\<rparr>))"

definition clone_table :: "extern \<Rightarrow> ptr \<Rightarrow> kernel_state \<Rightarrow> ptr \<times> u32 \<times> kernel_state" where
  "clone_table ops src s =
     (let (table, physAddr, s1) = clone_table_init ops s
      in (table, physAddr, clone_table_loop ops src table 1024 s1))"

subsection \<open>clone\_directory (lines 21-52)\<close>

definition clone_directory_entry :: "extern \<Rightarrow> ptr \<Rightarrow> ptr \<Rightarrow> nat \<Rightarrow> kernel_state \<Rightarrow> kernel_state" where
  "clone_directory_entry ops src dir i s =
     (if tables (dir_heap s src) i = 0 \<or> tables (dir_heap s src) i = 0xFFFFFFFF then s
      else if tables (dir_heap s (kernel_directory s)) i = tables (dir_heap s src) i then
        let s1 = upd_dir dir (\<lambda>d. d\<lparr>tables := (tables d)(i := tables (dir_heap s src) i)\<rparr>) s
        in upd_dir dir (\<lambda>d. d\<lparr>physical_tables := (physical_tables d)(i := physical_tables (dir_heap s1 src) i)\<rparr>) s1
      else
        let (table, phys, s1) = clone_table ops (tables (dir_heap s src) i) s;
            s2 = upd_dir dir (\<lambda>d. d\<lparr>tables := (tables d)(i := table)\<rparr>) s1
        in upd_dir dir (\<lambda>d. d\<lparr>physical_tables := (physical_tables d)(i := phys OR 0x07)\<rparr>) s2)"

definition clone_directory_loop :: "extern \<Rightarrow> ptr \<Rightarrow> ptr \<Rightarrow> nat \<Rightarrow> kernel_state \<Rightarrow> kernel_state" where
  "clone_directory_loop ops src dir n s = fold (clone_directory_entry ops src dir) [0..<n] s"

definition clone_directory_init :: "extern \<Rightarrow> kernel_state \<Rightarrow> ptr \<times> kernel_state" where
  "clone_directory_init ops s =
     (let (dir, phys, s1) = do_kvmalloc_p ops sizeof_page_directory_t s;
          s2 = s1\<lparr>dir_heap := (dir_heap s1)(dir := zero_directory)\<rparr>;
          offset = physical_tables_offset
      in (dir, upd_dir dir (\<lambda>d. d\<lparr>physical_address := phys + offset\<rparr>) s2))"

definition clone_directory :: "extern \<Rightarrow> ptr \<Rightarrow> kernel_state \<Rightarrow> ptr \<times> kernel_state" where
  "clone_directory ops src s =
     (let (dir, s1) = clone_directory_init ops s
      in (dir, clone_directory_loop ops src dir 1024 s1))"

subsection \<open>free\_directory (lines 57-73)\<close>

definition free_directory_page :: "ptr \<Rightarrow> nat \<Rightarrow> nat \<Rightarrow> kernel_state \<Rightarrow> kernel_state" where
  "free_directory_page dir i j s =
     (if frame (get_page s (tables (dir_heap s dir) i) j) \<noteq> 0
      then free_frame (tables (dir_heap s dir) i) j s else s)"

definition free_directory_entry :: "ptr \<Rightarrow> nat \<Rightarrow> kernel_state \<Rightarrow> kernel_state" where
  "free_directory_entry dir i s =
     (if tables (dir_heap s dir) i = 0 \<or> tables (dir_heap s dir) i = 0xFFFFFFFF then s
      else if tables (dir_heap s (kernel_directory s)) i \<noteq> tables (dir_heap s dir) i then
        let s1 = fold (free_directory_page dir i) [0..<1024] s
        in free (tables (dir_heap s1 dir) i) s1
      else s)"

definition free_directory :: "ptr \<Rightarrow> kernel_state \<Rightarrow> kernel_state" where
  "free_directory dir s = free dir (fold (free_directory_entry dir) [0..<1024] s)"

subsection \<open>reap\_process (lines 75-81)\<close>

definition reap_process :: "extern \<Rightarrow> ptr \<Rightarrow> kernel_state \<Rightarrow> kernel_state" where
  "reap_process ops proc s =
     (let s1 = list_free (wait_queue (proc_heap s proc)) s;
          s2 = free (wait_queue (proc_heap s1 proc)) s1;
          s3 = free (stack (image' (proc_heap s2 proc)) - KERNEL_STACK_SIZE ops) s2;
          s4 = free_directory (page_directory (thread (proc_heap s3 proc))) s3
      in free (entries (fds (proc_heap s4 proc))) s4)"

subsection \<open>The parent path of fork and clone (lines 172-195 and 237-261)\<close>

definition image_stack :: "kernel_state \<Rightarrow> ptr \<Rightarrow> u32" where
  "image_stack s p = stack (image' (proc_heap s p))"

text \<open>Lines 176-182 and 241-247: the new ESP and EBP for the child process.\<close>

definition set_child_esp_ebp :: "ptr \<Rightarrow> u32 \<Rightarrow> u32 \<Rightarrow> kernel_state \<Rightarrow> kernel_state" where
  "set_child_esp_ebp new_proc esp_v ebp_v s =
     (if image_stack s (current_process s) > image_stack s new_proc then
        let s1 = upd_proc new_proc (\<lambda>p. p\<lparr>thread := (thread p)
                   \<lparr>esp := esp_v - (image_stack s (current_process s) - image_stack s new_proc)\<rparr>\<rparr>) s
        in upd_proc new_proc (\<lambda>p. p\<lparr>thread := (thread p)
                   \<lparr>ebp := ebp_v - (image_stack s1 (current_process s1) - image_stack s1 new_proc)\<rparr>\<rparr>) s1
      else
        let s1 = upd_proc new_proc (\<lambda>p. p\<lparr>thread := (thread p)
                   \<lparr>esp := esp_v + (image_stack s new_proc - image_stack s (current_process s))\<rparr>\<rparr>) s
        in upd_proc new_proc (\<lambda>p. p\<lparr>thread := (thread p)
                   \<lparr>ebp := ebp_v - (image_stack s1 (current_process s1) - image_stack s1 new_proc)\<rparr>\<rparr>) s1)"

text \<open>Lines 186-190 and 251-255: move the \<^verbatim>\<open>syscall_registers\<close> pointer.\<close>

definition move_syscall_registers :: "extern \<Rightarrow> ptr \<Rightarrow> kernel_state \<Rightarrow> kernel_state" where
  "move_syscall_registers ops new_proc s =
     (let o_stack = image_stack s (current_process s) - KERNEL_STACK_SIZE ops;
          n_stack = image_stack s new_proc - KERNEL_STACK_SIZE ops;
          offset = syscall_registers (proc_heap s (current_process s)) - o_stack
      in upd_proc new_proc (\<lambda>p. p\<lparr>syscall_registers := n_stack + offset\<rparr>) s)"

text \<open>The statements that \<^verbatim>\<open>fork\<close> and \<^verbatim>\<open>clone\<close> share word for word, from the
  reading of \<^verbatim>\<open>esp\<close> and \<^verbatim>\<open>ebp\<close> to \<^verbatim>\<open>make_process_ready(new_proc)\<close>.\<close>

definition parent_path :: "extern \<Rightarrow> u32 \<Rightarrow> ptr \<Rightarrow> kernel_state \<Rightarrow> kernel_state" where
  "parent_path ops eip_v new_proc s =
     (let esp_v = cpu_esp s;
          ebp_v = cpu_ebp s;
          s1 = set_child_esp_ebp new_proc esp_v ebp_v s;
          s2 = s1\<lparr>stack_mem := memcpy (image_stack s1 new_proc - KERNEL_STACK_SIZE ops)
                                  (image_stack s1 (current_process s1) - KERNEL_STACK_SIZE ops)
                                  (KERNEL_STACK_SIZE ops) (stack_mem s1)\<rparr>;
          s3 = move_syscall_registers ops new_proc s2;
          s4 = upd_proc new_proc (\<lambda>p. p\<lparr>thread := (thread p)\<lparr>eip := eip_v\<rparr>\<rparr>) s3
      in make_process_ready new_proc s4)"

subsection \<open>fork (lines 147-206)\<close>

text \<open>
  \<^verbatim>\<open>read_eip()\<close> returns twice: to the caller, with the address of the instruction
  after the call, and again when \<^verbatim>\<open>switch_next\<close> jumps to that address, with
  \<^verbatim>\<open>0x10000\<close> in the accumulator. \<open>fork_resume\<close> is the code of \<^verbatim>\<open>fork\<close> after
  \<^verbatim>\<open>read_eip()\<close> (lines 168-205), given the value \<open>eip_v\<close> that \<^verbatim>\<open>read_eip()\<close>
  returned. It reads its locals from the frame at the current frame pointer.
\<close>

definition fork_resume :: "extern \<Rightarrow> u32 \<Rightarrow> kernel_state \<Rightarrow> error + (u32 \<times> kernel_state)" where
  "fork_resume ops eip_v s =
     (let fr = stack_mem s (cpu_ebp s) in
      if current_process s = l_parent fr then
        if l_magic fr \<noteq> TASK_MAGIC then Inl (AssertionFailed ''Bad process fork magic (parent)!'')
        else
          let s1 = parent_path ops eip_v (l_new_proc fr) s;
              s2 = IRQ_RES s1
          in Inr (id' (proc_heap s2 (l_new_proc fr)), s2)
      else
        if l_magic fr \<noteq> TASK_MAGIC then Inl (AssertionFailed ''Bad process fork magic (child)!'')
        else Inr (0, s))"

definition fork :: "extern \<Rightarrow> u32 \<Rightarrow> kernel_state \<Rightarrow> error + (u32 \<times> kernel_state)" where
  "fork ops eip_v s =
     (let s0 = IRQ_OFF s;
          magic = TASK_MAGIC;
          parent = current_process s0
      in if parent = 0 then Inl (AssertionFailed ''Forked from nothing??'')
      else
        let (directory, s1) = clone_directory ops (current_directory s0) s0
        in if directory = 0 then Inl (AssertionFailed ''Could not allocate a new page directory!'')
        else
          let (new_proc, s2) = do_spawn_process ops (current_process s1) s1
          in if new_proc = 0 then Inl (AssertionFailed ''Could not allocate a new process!'')
          else
            let s3 = set_process_environment new_proc directory s2;
                s4 = s3\<lparr>stack_mem := (stack_mem s3)(cpu_ebp s3 :=
                       \<lparr>l_magic = magic, l_parent = parent, l_directory = directory,
                        l_new_proc = new_proc\<rparr>)\<rparr>
            in fork_resume ops eip_v s4)"

subsection \<open>clone (lines 212-270)\<close>

definition clone_resume :: "extern \<Rightarrow> u32 \<Rightarrow> kernel_state \<Rightarrow> error + (u32 \<times> kernel_state)" where
  "clone_resume ops eip_v s =
     (let fr = stack_mem s (cpu_ebp s) in
      if current_process s = l_parent fr then
        if l_magic fr \<noteq> TASK_MAGIC then Inl (AssertionFailed ''Bad process fork magic (parent clone)!'')
        else
          let s1 = parent_path ops eip_v (l_new_proc fr) s
          in Inr (id' (proc_heap s1 (l_new_proc fr)), s1)
      else
        if l_magic fr \<noteq> TASK_MAGIC then Inl (AssertionFailed ''Bad process fork magic (child clone)!'')
        else Inr (0, s))"

definition clone :: "extern \<Rightarrow> u32 \<Rightarrow> u32 \<Rightarrow> u32 \<Rightarrow> kernel_state \<Rightarrow> error + (u32 \<times> kernel_state)" where
  "clone ops stack_top stack_old eip_v s =
     (let magic = TASK_MAGIC;
          r = syscall_registers (proc_heap s (current_process s));
          s0 = kprintf (regs_esp s r) s;
          parent = current_process s0
      in if parent = 0 then Inl (AssertionFailed ''Cloned from nothing??'')
      else
        let directory = current_directory s0;
            (new_proc, s1) = do_spawn_process ops (current_process s0) s0
        in if new_proc = 0 then Inl (AssertionFailed ''Could not allocate a new process!'')
        else
          let s2 = set_process_environment new_proc directory s1;
              s3 = s2\<lparr>stack_mem := (stack_mem s2)(cpu_ebp s2 :=
                     \<lparr>l_magic = magic, l_parent = parent, l_directory = directory,
                      l_new_proc = new_proc\<rparr>)\<rparr>
          in clone_resume ops eip_v s3)"

subsection \<open>switch\_next (lines 344-372)\<close>

text \<open>The final assembly block loads \<^verbatim>\<open>esp\<close>, \<^verbatim>\<open>ebp\<close> and \<^verbatim>\<open>cr3\<close>, puts
  \<^verbatim>\<open>0x10000\<close> in the accumulator and jumps to the saved instruction pointer.\<close>

definition switch_next :: "extern \<Rightarrow> kernel_state \<Rightarrow> error + kernel_state" where
  "switch_next ops s =
     (let (p, s1) = next_ready_process s;
          s2 = s1\<lparr>current_process := p\<rparr>;
          eip_v = eip (thread (proc_heap s2 (current_process s2)));
          esp_v = esp (thread (proc_heap s2 (current_process s2)));
          ebp_v = ebp (thread (proc_heap s2 (current_process s2)))
      in if \<not> (eip_v > code_start ops \<and> eip_v < code_end ops)
         then Inl (AssertionFailed ''Task switch return point is not within Kernel!'')
         else
           let s3 = s2\<lparr>current_directory := page_directory (thread (proc_heap s2 (current_process s2)))\<rparr>;
               s4 = set_kernel_stack (image_stack s3 (current_process s3)) s3
           in Inr (s4\<lparr>cpu_esp := esp_v, cpu_ebp := ebp_v,
                      cpu_cr3 := physical_address (dir_heap s4 (current_directory s4)),
                      cpu_eax := 0x10000, cpu_eip := eip_v\<rparr>))"

subsection \<open>Functions that only extend the trace\<close>

text \<open>\<open>only_trace s s'\<close>: the state \<open>s'\<close> differs from \<open>s\<close> in the trace at most.\<close>

definition only_trace :: "kernel_state \<Rightarrow> kernel_state \<Rightarrow> bool" where
  "only_trace s s' = (s' = s\<lparr>trace := trace s'\<rparr>)"

lemma only_trace_refl: "only_trace s s"
  by (simp add: only_trace_def)

lemma only_trace_trans: "only_trace s s' \<Longrightarrow> only_trace s' s'' \<Longrightarrow> only_trace s s''"
  unfolding only_trace_def
  by (cases s, cases s', cases s'') simp

lemma only_trace_emit: "only_trace s (emit e s)"
  by (simp add: only_trace_def emit_def)

lemma only_trace_fold:
  assumes "\<And>x s. only_trace s (f x s)"
  shows "only_trace s (fold f xs s)"
proof (induction xs arbitrary: s)
  case Nil
  show ?case by (simp add: only_trace_refl)
next
  case (Cons x xs)
  show ?case using only_trace_trans [OF assms Cons.IH] by simp
qed

lemma only_trace_free_frame: "only_trace s (free_frame t j s)"
  by (simp add: free_frame_def only_trace_emit)

lemma only_trace_free: "only_trace s (free p s)"
  by (simp add: free_def only_trace_emit)

lemma only_trace_free_directory_page: "only_trace s (free_directory_page d i j s)"
  by (simp add: free_directory_page_def only_trace_free_frame only_trace_refl)

lemma only_trace_free_directory_entry: "only_trace s (free_directory_entry d i s)"
  unfolding free_directory_entry_def Let_def
  by (auto intro: only_trace_refl only_trace_trans [OF only_trace_fold only_trace_free]
      only_trace_free_directory_page)

lemma only_trace_free_directory: "only_trace s (free_directory d s)"
  unfolding free_directory_def
  by (rule only_trace_trans [OF only_trace_fold only_trace_free])
     (rule only_trace_free_directory_entry)

lemma only_trace_reap_process: "only_trace s (reap_process ops p s)"
  unfolding reap_process_def Let_def list_free_def
  by (intro only_trace_trans [OF _ only_trace_free] only_trace_trans [OF _ only_trace_free_directory]
      only_trace_emit)

lemma only_trace_reap_queue: "only_trace s s' \<Longrightarrow> reap_queue s' = reap_queue s"
  unfolding only_trace_def by (cases s, cases s') simp

lemma reap_queue_reap_process [simp]: "reap_queue (reap_process ops p s) = reap_queue s"
  by (rule only_trace_reap_queue [OF only_trace_reap_process])

subsection \<open>switch\_task (lines 297-337)\<close>

text \<open>The loop of lines 316-321. It ends: every round takes a process off the reapable
  queue, and \<open>reap_process\<close> does not touch the queue.\<close>

function reap_loop :: "extern \<Rightarrow> kernel_state \<Rightarrow> kernel_state" where
  "reap_loop ops s =
     (if should_reap s then
        let (proc, s1) = next_reapable_process s
        in reap_loop ops (if proc \<noteq> 0 then reap_process ops proc s1 else s1)
      else s)"
  by pat_completeness auto
termination
  by (relation "measure (\<lambda>(ops, s). length (reap_queue s))")
     (auto simp: should_reap_def next_reapable_process_def split: list.splits)

text \<open>The code after \<^verbatim>\<open>read_eip()\<close> has returned (lines 313-336). \<open>eip_v\<close> is the value
  it returned; \<open>esp_v\<close> and \<open>ebp_v\<close> are the locals \<^verbatim>\<open>esp\<close> and \<^verbatim>\<open>ebp\<close> of the frame.
  Control gets here in two ways: from line 312 of a call of \<^verbatim>\<open>switch_task\<close> that has
  passed the two guards, with the address after the call; and by the jump that ends
  \<^verbatim>\<open>switch_next\<close>, which lands at the saved \<^verbatim>\<open>eip\<close> of the process switched in with
  \<^verbatim>\<open>0x10000\<close> in \<^verbatim>\<open>eax\<close>, in the state \<^verbatim>\<open>switch_next\<close> has made. The guards of
  lines 299-306 are not run again on that second way.\<close>

definition switch_task_resume ::
    "extern \<Rightarrow> 8 word \<Rightarrow> u32 \<Rightarrow> u32 \<Rightarrow> u32 \<Rightarrow> kernel_state \<Rightarrow> error + kernel_state" where
  "switch_task_resume ops reschedule esp_v ebp_v eip_v s =
     (if eip_v = 0x10000 then Inr (reap_loop ops s)
      else
        let s1 = upd_proc (current_process s) (\<lambda>p. p\<lparr>thread := (thread p)\<lparr>eip := eip_v\<rparr>\<rparr>) s;
            s2 = upd_proc (current_process s1) (\<lambda>p. p\<lparr>thread := (thread p)\<lparr>esp := esp_v\<rparr>\<rparr>) s1;
            s3 = upd_proc (current_process s2) (\<lambda>p. p\<lparr>thread := (thread p)\<lparr>ebp := ebp_v\<rparr>\<rparr>) s2;
            s4 = (if reschedule \<noteq> 0 then make_process_ready (current_process s3) s3 else s3)
        in switch_next ops s4)"

text \<open>A call of \<^verbatim>\<open>switch_task\<close> (lines 297-312): the two guards, the capture of
  \<^verbatim>\<open>esp\<close> and \<^verbatim>\<open>ebp\<close>, and \<^verbatim>\<open>read_eip()\<close>, which returns \<open>eip_v\<close>, the address
  after the call.\<close>

definition switch_task :: "extern \<Rightarrow> 8 word \<Rightarrow> u32 \<Rightarrow> kernel_state \<Rightarrow> error + kernel_state" where
  "switch_task ops reschedule eip_v s =
     (if current_process s = 0 then Inr s
      else if \<not> process_available s then Inr s
      else
        let esp_v = cpu_esp s;
            ebp_v = cpu_ebp s
        in switch_task_resume ops reschedule esp_v ebp_v eip_v s)"

subsection \<open>Auxiliary definitions for the statements\<close>

text \<open>\<open>paging_only s s'\<close>: the state \<open>s'\<close> differs from \<open>s\<close> in the two paging
  heaps and the trace at most.\<close>

definition paging_only :: "kernel_state \<Rightarrow> kernel_state \<Rightarrow> bool" where
  "paging_only s s' = (s' = s\<lparr>table_heap := table_heap s', dir_heap := dir_heap s', trace := trace s'\<rparr>)"

text \<open>The state in which \<^verbatim>\<open>fork\<close> reaches \<^verbatim>\<open>read_eip()\<close> (lines 149-164, with the
  locals in the frame), and the process it has spawned.\<close>

definition fork_spawned :: "extern \<Rightarrow> kernel_state \<Rightarrow> ptr \<times> kernel_state" where
  "fork_spawned ops s =
     (let s0 = IRQ_OFF s;
          (directory, s1) = clone_directory ops (current_directory s0) s0;
          (new_proc, s2) = do_spawn_process ops (current_process s1) s1;
          s3 = set_process_environment new_proc directory s2
      in (new_proc, s3\<lparr>stack_mem := (stack_mem s3)(cpu_ebp s3 :=
            \<lparr>l_magic = TASK_MAGIC, l_parent = current_process s0, l_directory = directory,
             l_new_proc = new_proc\<rparr>)\<rparr>))"

text \<open>The same for \<^verbatim>\<open>clone\<close> (lines 214-229).\<close>

definition clone_spawned :: "extern \<Rightarrow> kernel_state \<Rightarrow> ptr \<times> kernel_state" where
  "clone_spawned ops s =
     (let s0 = kprintf (regs_esp s (syscall_registers (proc_heap s (current_process s)))) s;
          (new_proc, s1) = do_spawn_process ops (current_process s0) s0;
          s2 = set_process_environment new_proc (current_directory s0) s1
      in (new_proc, s2\<lparr>stack_mem := (stack_mem s2)(cpu_ebp s2 :=
            \<lparr>l_magic = TASK_MAGIC, l_parent = current_process s0, l_directory = current_directory s0,
             l_new_proc = new_proc\<rparr>)\<rparr>))"

text \<open>The kernel stack region of a process whose \<^verbatim>\<open>image.stack\<close> is \<open>stack_v\<close>:
  the \<open>KERNEL_STACK_SIZE\<close> addresses from \<open>stack_v - KERNEL_STACK_SIZE\<close> on. An address
  lies in it when its offset from that base is below the size. Where the region does not
  wrap around the address space, these are the addresses from the base up to, and
  without, \<open>stack_v\<close> (lemma \<open>in_kernel_stack_interval\<close>).\<close>

definition in_kernel_stack :: "extern \<Rightarrow> u32 \<Rightarrow> ptr \<Rightarrow> bool" where
  "in_kernel_stack ops stack_v p = (p - (stack_v - KERNEL_STACK_SIZE ops) < KERNEL_STACK_SIZE ops)"

text \<open>Calling \<open>reap_process\<close> on each process of a list that is not the null
  pointer, in order.\<close>

definition reap_each :: "extern \<Rightarrow> ptr list \<Rightarrow> kernel_state \<Rightarrow> kernel_state" where
  "reap_each ops ps s = fold (\<lambda>proc s. if proc \<noteq> 0 then reap_process ops proc s else s) ps s"

text \<open>What the five conditional assignments of lines 107-111 make of the page \<open>pg\<close> that
  \<^verbatim>\<open>alloc_frame\<close> left in the new entry, for the source page \<open>sp\<close>: each bit is set
  when it is set in the source, and otherwise stays as \<^verbatim>\<open>alloc_frame\<close> left it.\<close>

definition mirror_bits :: "page_t \<Rightarrow> page_t \<Rightarrow> page_t" where
  "mirror_bits sp pg = pg\<lparr>present := present sp \<or> present pg, rw := rw sp \<or> rw pg,
     user := user sp \<or> user pg, accessed := accessed sp \<or> accessed pg,
     dirty := dirty sp \<or> dirty pg\<rparr>"

text \<open>The page \<^verbatim>\<open>alloc_frame\<close> answers for entry \<open>i\<close> of the new table, when the round
  for \<open>i\<close> starts in state \<open>s\<close>; and the events of a round, for the source page \<open>sp\<close>
  and that answer \<open>pg\<close>.\<close>

definition round_page :: "extern \<Rightarrow> ptr \<Rightarrow> nat \<Rightarrow> kernel_state \<Rightarrow> page_t" where
  "round_page ops table i s = alloc_frame ops s (get_page s table i) 0 0"

definition round_events :: "page_t \<Rightarrow> page_t \<Rightarrow> event list" where
  "round_events sp pg =
     (if frame sp = 0 then []
      else [EvAllocFrame pg, EvCopyPage (ucast (frame sp) * 0x1000) (ucast (frame pg) * 0x1000)])"

text \<open>What a list of events allocates and frees: the frames that \<^verbatim>\<open>alloc_frame\<close> left
  in the pages it answered, the frames passed to \<^verbatim>\<open>free_frame\<close>, the blocks
  \<^verbatim>\<open>kvmalloc_p\<close> returned and the blocks passed to \<^verbatim>\<open>free\<close>, each in order.\<close>

definition frames_allocated :: "event list \<Rightarrow> 20 word list" where
  "frames_allocated es = concat (map (\<lambda>e. case e of EvAllocFrame pg \<Rightarrow> [frame pg] | _ \<Rightarrow> []) es)"

definition frames_freed :: "event list \<Rightarrow> 20 word list" where
  "frames_freed es = concat (map (\<lambda>e. case e of EvFreeFrame f \<Rightarrow> [f] | _ \<Rightarrow> []) es)"

definition blocks_allocated :: "event list \<Rightarrow> ptr list" where
  "blocks_allocated es = concat (map (\<lambda>e. case e of EvKvmalloc sz p ph \<Rightarrow> [p] | _ \<Rightarrow> []) es)"

definition blocks_freed :: "event list \<Rightarrow> ptr list" where
  "blocks_freed es = concat (map (\<lambda>e. case e of EvFree p \<Rightarrow> [p] | _ \<Rightarrow> []) es)"

text \<open>\<open>extends s s'\<close>: the trace of \<open>s'\<close> continues the trace of \<open>s\<close>.\<close>

definition extends :: "kernel_state \<Rightarrow> kernel_state \<Rightarrow> bool" where
  "extends s s' = (\<exists>es. trace s' = trace s @ es)"

text \<open>For \<^verbatim>\<open>clone_directory(src)\<close> called in state \<open>s\<close>: the state the loop has reached
  before round \<open>i\<close>; whether round \<open>i\<close> deep-clones (the source entry is neither null
  nor the sentinel nor the kernel directory's); and the table \<^verbatim>\<open>clone_table\<close> returns
  in that round.\<close>

definition dir_round :: "extern \<Rightarrow> ptr \<Rightarrow> kernel_state \<Rightarrow> nat \<Rightarrow> kernel_state" where
  "dir_round ops src s i =
     clone_directory_loop ops src (fst (clone_directory_init ops s)) i (snd (clone_directory_init ops s))"

definition deep :: "ptr \<Rightarrow> kernel_state \<Rightarrow> nat \<Rightarrow> bool" where
  "deep src s i = (tables (dir_heap s src) i \<noteq> 0 \<and> tables (dir_heap s src) i \<noteq> 0xFFFFFFFF
     \<and> tables (dir_heap s (kernel_directory s)) i \<noteq> tables (dir_heap s src) i)"

definition new_table :: "extern \<Rightarrow> ptr \<Rightarrow> kernel_state \<Rightarrow> nat \<Rightarrow> ptr" where
  "new_table ops src s i = fst (clone_table ops (tables (dir_heap s src) i) (dir_round ops src s i))"

text \<open>The frames of a table: the non-zero frame fields of its 1024 entries, in order.\<close>

definition table_frames :: "kernel_state \<Rightarrow> ptr \<Rightarrow> 20 word list" where
  "table_frames s t =
     concat (map (\<lambda>j. if frame (get_page s t j) \<noteq> 0 then [frame (get_page s t j)] else []) [0..<1024])"

text \<open>The events of \<^verbatim>\<open>clone_directory(src)\<close> called in state \<open>s\<close>, and the events of
  \<^verbatim>\<open>free_directory\<close> called on its result right after.\<close>

definition cloned_events :: "extern \<Rightarrow> ptr \<Rightarrow> kernel_state \<Rightarrow> event list" where
  "cloned_events ops src s = drop (length (trace s)) (trace (snd (clone_directory ops src s)))"

definition freed_events :: "extern \<Rightarrow> ptr \<Rightarrow> kernel_state \<Rightarrow> event list" where
  "freed_events ops src s =
     drop (length (trace (snd (clone_directory ops src s))))
       (trace (free_directory (fst (clone_directory ops src s)) (snd (clone_directory ops src s))))"

text \<open>What the statement about \<^verbatim>\<open>clone_directory\<close> followed by \<^verbatim>\<open>free_directory\<close>
  asks of the kernel heap: the blocks \<^verbatim>\<open>kvmalloc_p\<close> returned during the clone are
  pairwise distinct, and none of them is null, the sentinel, the source directory, the
  kernel directory, or a table of the source or of the kernel directory.\<close>

definition fresh_blocks :: "extern \<Rightarrow> ptr \<Rightarrow> kernel_state \<Rightarrow> bool" where
  "fresh_blocks ops src s =
     (distinct (blocks_allocated (cloned_events ops src s))
      \<and> (\<forall>p \<in> set (blocks_allocated (cloned_events ops src s)).
            p \<noteq> 0 \<and> p \<noteq> 0xFFFFFFFF \<and> p \<noteq> src \<and> p \<noteq> kernel_directory s
            \<and> (\<forall>i<1024. p \<noteq> tables (dir_heap s src) i
                          \<and> p \<noteq> tables (dir_heap s (kernel_directory s)) i)))"

text \<open>For \<^verbatim>\<open>free_directory(dir)\<close> in state \<open>s\<close>: whether entry \<open>i\<close> is a table the
  directory owns (neither null nor the sentinel nor the kernel directory's), the events
  of the inner loop for one page, and the events of the outer loop for one entry.\<close>

definition owned :: "kernel_state \<Rightarrow> ptr \<Rightarrow> nat \<Rightarrow> bool" where
  "owned s dir i = (tables (dir_heap s dir) i \<noteq> 0 \<and> tables (dir_heap s dir) i \<noteq> 0xFFFFFFFF
     \<and> tables (dir_heap s (kernel_directory s)) i \<noteq> tables (dir_heap s dir) i)"

definition page_events :: "kernel_state \<Rightarrow> ptr \<Rightarrow> nat \<Rightarrow> event list" where
  "page_events s t j = (if frame (get_page s t j) \<noteq> 0 then [EvFreeFrame (frame (get_page s t j))] else [])"

definition entry_events :: "kernel_state \<Rightarrow> ptr \<Rightarrow> nat \<Rightarrow> event list" where
  "entry_events s dir i =
     (if owned s dir i
      then concat (map (page_events s (tables (dir_heap s dir) i)) [0..<1024]) @ [EvFree (tables (dir_heap s dir) i)]
      else [])"

text \<open>The interrupt events of a trace.\<close>

definition irq_events :: "event list \<Rightarrow> event list" where
  "irq_events es = filter (\<lambda>e. e = EvIrqOff \<or> e = EvIrqRes) es"

subsection \<open>An example configuration\<close>

text \<open>
  A kernel stack of 32 KiB; a heap whose next block (identity-mapped, from \<open>0x400000\<close>
  up) and a frame allocator whose next frame (from \<open>0x100\<close> up) depend on the number
  of events so far; the frame allocator marks the page present, writable when
  \<open>is_writeable\<close> is 1 and user-accessible unless \<open>is_kernel\<close> is 1; a process
  constructor that answers a record with pid 1 and a kernel stack ending at
  \<open>0x510000\<close>.

  The state: the running process (pid 0, at \<open>0x200000\<close>) has its kernel stack below
  \<open>0x500000\<close>. Its directory (at \<open>0x1000\<close>) shares table 0 with the kernel
  directory (at \<open>0x3000\<close>), owns table 1, whose entry 5 maps frame \<open>0x123\<close> (present,
  writable, kernel-only, dirty), and holds the sentinel in entry 2.
\<close>

definition zero_process :: process_t where
  "zero_process = \<lparr>id' = 0, image' = \<lparr>stack = 0\<rparr>,
     thread = \<lparr>esp = 0, ebp = 0, eip = 0, page_directory = 0\<rparr>, fds = \<lparr>entries = 0\<rparr>,
     status = 0, finished = False, wait_queue = 0, syscall_registers = 0\<rparr>"

definition ex_block :: "kernel_state \<Rightarrow> ptr" where
  "ex_block s = 0x400000 + 0x4000 * of_nat (length (trace s) mod 0x400)"

definition ex_frame :: "kernel_state \<Rightarrow> 20 word" where
  "ex_frame s = 0x100 + of_nat (length (trace s) mod 0x1000)"

definition ex_ops :: extern where
  "ex_ops = \<lparr>KERNEL_STACK_SIZE = 0x8000, code_start = 0x100000, code_end = 0x200000,
     kvmalloc_p = (\<lambda>s sz. (ex_block s, ex_block s)),
     alloc_frame = (\<lambda>s pg k w. pg\<lparr>present := True, rw := (w = 1), user := (k \<noteq> 1),
                                   frame := ex_frame s\<rparr>),
     spawn_process = (\<lambda>s parent. (0x300000, zero_process\<lparr>id' := 1, image' := \<lparr>stack = 0x510000\<rparr>\<rparr>))\<rparr>"

definition ex_state :: kernel_state where
  "ex_state = \<lparr>
     table_heap = (\<lambda>_. zero_table)
       (0x20000 := \<lparr>pages = (\<lambda>_. zero_page)(5 := \<lparr>present = True, rw = True, user = False,
           accessed = False, dirty = True, frame = 0x123\<rparr>)\<rparr>),
     dir_heap = (\<lambda>_. zero_directory)
       (0x1000 := \<lparr>tables = (\<lambda>_. 0)(0 := 0x10000, 1 := 0x20000, 2 := 0xFFFFFFFF),
                    physical_tables = (\<lambda>_. 0)(0 := 0x10003, 1 := 0x20007, 2 := 0xFFFFFFFF),
                    physical_address = 0x2000\<rparr>,
        0x3000 := \<lparr>tables = (\<lambda>_. 0)(0 := 0x10000),
                    physical_tables = (\<lambda>_. 0)(0 := 0x10003),
                    physical_address = 0x4000\<rparr>),
     proc_heap = (\<lambda>_. zero_process)
       (0x200000 := zero_process\<lparr>id' := 0, image' := \<lparr>stack = 0x500000\<rparr>,
           syscall_registers := 0x4FFF00\<rparr>),
     stack_mem = (\<lambda>_. \<lparr>l_magic = 0, l_parent = 0, l_directory = 0, l_new_proc = 0\<rparr>),
     regs_esp = (\<lambda>_. 0),
     kernel_directory = 0x3000,
     current_directory = 0x1000,
     current_process = 0x200000,
     ready_queue = [],
     reap_queue = [],
     interrupts = True,
     tss_esp0 = 0x500000,
     cpu_esp = 0x4FFE00,
     cpu_ebp = 0x4FFE40,
     cpu_eip = 0,
     cpu_eax = 0,
     cpu_cr3 = 0x2000,
     trace = []\<rparr>"


text \<open>A process that exits. Its record is at \<open>0x280000\<close>: pid 2, a kernel stack below
  \<open>0x520000\<close>, a wait queue at \<open>0x600000\<close>, a descriptor table at \<open>0x610000\<close>
  and a directory of its own at \<open>0x5000\<close>, which shares table 0 with the kernel
  directory and owns table 3 (at \<open>0x30000\<close>), whose entry 7 maps frame \<open>0x456\<close>.
  In \<open>ex_exit\<close> it is still running, it waits in the reapable queue (followed by a
  null entry), and the process at \<open>0x200000\<close>, which was switched out inside
  \<^verbatim>\<open>switch_task\<close>, is the only ready one. \<open>ex_reap\<close> is the state in which that
  process is resumed: \<^verbatim>\<open>switch_next\<close> has taken it off the ready queue, which is now
  empty, and has left \<^verbatim>\<open>0x10000\<close> in \<^verbatim>\<open>eax\<close>.\<close>

definition ex_exit :: kernel_state where
  "ex_exit = ex_state\<lparr>
     table_heap := (table_heap ex_state)
       (0x30000 := \<lparr>pages = (\<lambda>_. zero_page)(7 := \<lparr>present = True, rw = True, user = True,
           accessed = True, dirty = False, frame = 0x456\<rparr>)\<rparr>),
     dir_heap := (dir_heap ex_state)
       (0x5000 := \<lparr>tables = (\<lambda>_. 0)(0 := 0x10000, 3 := 0x30000),
                    physical_tables = (\<lambda>_. 0)(0 := 0x10003, 3 := 0x30007),
                    physical_address = 0x6000\<rparr>),
     proc_heap := (proc_heap ex_state)
       (0x200000 := zero_process\<lparr>id' := 0, image' := \<lparr>stack = 0x500000\<rparr>,
           thread := \<lparr>esp = 0x4FFE00, ebp = 0x4FFE40, eip = 0x101234, page_directory = 0x1000\<rparr>,
           syscall_registers := 0x4FFF00\<rparr>,
        0x280000 := zero_process\<lparr>id' := 2, image' := \<lparr>stack = 0x520000\<rparr>,
           thread := \<lparr>esp = 0, ebp = 0, eip = 0, page_directory = 0x5000\<rparr>,
           fds := \<lparr>entries = 0x610000\<rparr>, finished := True, wait_queue := 0x600000\<rparr>),
     current_directory := 0x5000,
     current_process := 0x280000,
     ready_queue := [0x200000],
     reap_queue := [0x280000, 0],
     tss_esp0 := 0x520000,
     cpu_esp := 0x51FE00,
     cpu_ebp := 0x51FE40,
     cpu_cr3 := 0x6000\<rparr>"

definition ex_reap :: kernel_state where
  "ex_reap = ex_exit\<lparr>
     current_directory := 0x1000,
     current_process := 0x200000,
     ready_queue := [],
     tss_esp0 := 0x500000,
     cpu_esp := 0x4FFE00,
     cpu_ebp := 0x4FFE40,
     cpu_eip := 0x101234,
     cpu_eax := 0x10000,
     cpu_cr3 := 0x2000\<rparr>"

section \<open>Properties\<close>

subsection \<open>What the paging functions leave alone\<close>

lemma paging_only_refl: "paging_only s s"
  by (simp add: paging_only_def)

lemma paging_only_trans: "paging_only s s' \<Longrightarrow> paging_only s' s'' \<Longrightarrow> paging_only s s''"
  unfolding paging_only_def
  by (cases s, cases s', cases s'') simp

lemma paging_only_emit: "paging_only s (emit e s)"
  by (simp add: paging_only_def emit_def)

lemma paging_only_upd_page: "paging_only s (upd_page t i f s)"
  by (simp add: paging_only_def upd_page_def)

lemma paging_only_upd_dir: "paging_only s (upd_dir d f s)"
  by (simp add: paging_only_def upd_dir_def)

lemma paging_only_fold:
  assumes "\<And>x s. paging_only s (f x s)"
  shows "paging_only s (fold f xs s)"
proof (induction xs arbitrary: s)
  case Nil
  show ?case by (simp add: paging_only_refl)
next
  case (Cons x xs)
  show ?case using paging_only_trans [OF assms Cons.IH] by simp
qed

lemma paging_only_if:
  "paging_only s (f s) \<Longrightarrow> paging_only s (if b then f s else s)"
  by (simp add: paging_only_refl)

lemma paging_only_do_alloc_frame: "paging_only s (do_alloc_frame ops t i k w s)"
  unfolding do_alloc_frame_def Let_def
  by (rule paging_only_trans [OF paging_only_upd_page paging_only_emit])

lemma paging_only_clone_table_entry: "paging_only s (clone_table_entry ops src t i s)"
proof (cases "frame (get_page s src i) = 0")
  case True
  then show ?thesis by (simp add: clone_table_entry_def paging_only_refl)
next
  case False
  have step: "\<And>s b f. paging_only s (if b then upd_page t i f s else s)"
    by (simp add: paging_only_refl paging_only_upd_page)
  show ?thesis
    unfolding clone_table_entry_def Let_def copy_page_physical_def if_not_P [OF False]
    by (intro paging_only_trans [OF _ paging_only_emit] paging_only_trans [OF _ step]
        paging_only_do_alloc_frame)
qed

lemma paging_only_clone_table: "paging_only s (snd (snd (clone_table ops src s)))"
proof -
  have a: "paging_only s (emit e s\<lparr>table_heap := h\<rparr>)" for e h
    by (simp add: paging_only_def emit_def)
  show ?thesis
    unfolding clone_table_def clone_table_init_def clone_table_loop_def do_kvmalloc_p_def Let_def
    by (simp add: split_beta) (rule paging_only_trans [OF a paging_only_fold],
        rule paging_only_clone_table_entry)
qed

lemma paging_only_clone_directory_entry: "paging_only s (clone_directory_entry ops src d i s)"
  unfolding clone_directory_entry_def Let_def split_beta
  by (auto intro: paging_only_refl paging_only_trans [OF paging_only_upd_dir paging_only_upd_dir]
      paging_only_trans [OF paging_only_clone_table paging_only_trans [OF paging_only_upd_dir paging_only_upd_dir]])

lemma paging_only_clone_directory: "paging_only s (snd (clone_directory ops src s))"
proof -
  have a: "paging_only s (upd_dir d f (emit e s\<lparr>dir_heap := h\<rparr>))" for e h d f
    by (simp add: paging_only_def emit_def upd_dir_def)
  show ?thesis
    unfolding clone_directory_def clone_directory_init_def clone_directory_loop_def
      do_kvmalloc_p_def Let_def
    by (simp add: split_beta) (rule paging_only_trans [OF a paging_only_fold],
        rule paging_only_clone_directory_entry)
qed


lemma paging_only_fields:
  assumes "paging_only s s'"
  shows "proc_heap s' = proc_heap s" "stack_mem s' = stack_mem s" "regs_esp s' = regs_esp s"
    "kernel_directory s' = kernel_directory s" "current_directory s' = current_directory s"
    "current_process s' = current_process s" "ready_queue s' = ready_queue s"
    "reap_queue s' = reap_queue s" "interrupts s' = interrupts s" "tss_esp0 s' = tss_esp0 s"
    "cpu_esp s' = cpu_esp s" "cpu_ebp s' = cpu_ebp s" "cpu_eip s' = cpu_eip s"
    "cpu_eax s' = cpu_eax s" "cpu_cr3 s' = cpu_cr3 s"
  using assms unfolding paging_only_def by (cases s, cases s', simp)+

lemma only_trace_fields:
  assumes "only_trace s s'"
  shows "proc_heap s' = proc_heap s" "dir_heap s' = dir_heap s" "table_heap s' = table_heap s"
    "kernel_directory s' = kernel_directory s" "ready_queue s' = ready_queue s"
    "current_process s' = current_process s" "current_directory s' = current_directory s"
    "cpu_esp s' = cpu_esp s" "cpu_ebp s' = cpu_ebp s" "cpu_eip s' = cpu_eip s"
    "cpu_eax s' = cpu_eax s" "cpu_cr3 s' = cpu_cr3 s" "tss_esp0 s' = tss_esp0 s"
    "interrupts s' = interrupts s" "stack_mem s' = stack_mem s" "reap_queue s' = reap_queue s"
  using assms unfolding only_trace_def by (cases s, cases s', simp)+

subsection \<open>The parent path\<close>

lemma parent_path_fields:
  "current_process (parent_path ops e c s) = current_process s"
  "cpu_esp (parent_path ops e c s) = cpu_esp s"
  "cpu_ebp (parent_path ops e c s) = cpu_ebp s"
  "ready_queue (parent_path ops e c s) = ready_queue s @ [c]"
  "interrupts (parent_path ops e c s) = interrupts s"
  by (simp_all add: parent_path_def Let_def make_process_ready_def emit_def upd_proc_def
      move_syscall_registers_def set_child_esp_ebp_def)

lemma parent_path_child_esp:
  "esp (thread (proc_heap (parent_path ops e c s) c)) =
     cpu_esp s + (image_stack s c - image_stack s (current_process s))"
  by (simp add: parent_path_def Let_def make_process_ready_def emit_def upd_proc_def
      move_syscall_registers_def set_child_esp_ebp_def image_stack_def)

lemma parent_path_child_ebp:
  "ebp (thread (proc_heap (parent_path ops e c s) c)) =
     cpu_ebp s + (image_stack s c - image_stack s (current_process s))"
  by (simp add: parent_path_def Let_def make_process_ready_def emit_def upd_proc_def
      move_syscall_registers_def set_child_esp_ebp_def image_stack_def)

lemma parent_path_image_stack:
  "image_stack (parent_path ops e c s) p = image_stack s p"
  by (simp add: parent_path_def Let_def make_process_ready_def emit_def upd_proc_def
      move_syscall_registers_def set_child_esp_ebp_def image_stack_def)

lemma fork_spawned_fields:
  "current_process (snd (fork_spawned ops s)) = current_process s"
  "cpu_esp (snd (fork_spawned ops s)) = cpu_esp s"
  "cpu_ebp (snd (fork_spawned ops s)) = cpu_ebp s"
  "ready_queue (snd (fork_spawned ops s)) = ready_queue s"
  using paging_only_fields [OF paging_only_clone_directory [of "IRQ_OFF s" ops "current_directory (IRQ_OFF s)"]]
  by (simp_all add: fork_spawned_def Let_def split_beta do_spawn_process_def emit_def
      set_process_environment_def upd_proc_def IRQ_OFF_def)

lemma fork_Inr:
  assumes "fork ops e s = Inr (pid, s')"
  shows "s' = IRQ_RES (parent_path ops e (fst (fork_spawned ops s)) (snd (fork_spawned ops s)))"
    and "pid = id' (proc_heap s' (fst (fork_spawned ops s)))"
proof -
  let ?s4 = "snd (fork_spawned ops s)"
  have fr: "stack_mem ?s4 (cpu_ebp ?s4) =
      \<lparr>l_magic = TASK_MAGIC, l_parent = current_process (IRQ_OFF s),
       l_directory = fst (clone_directory ops (current_directory (IRQ_OFF s)) (IRQ_OFF s)),
       l_new_proc = fst (fork_spawned ops s)\<rparr>"
    by (simp add: fork_spawned_def Let_def split_beta)
  have cp: "current_process (IRQ_OFF s) = current_process s"
    by (simp add: IRQ_OFF_def emit_def)
  have "fork ops e s = Inr (pid, s') \<Longrightarrow> fork_resume ops e ?s4 = Inr (pid, s')"
    by (simp add: fork_def fork_spawned_def Let_def split_beta split: if_splits)
  with assms have r: "fork_resume ops e ?s4 = Inr (pid, s')" by simp
  have eq: "fork_resume ops e ?s4 =
      Inr (id' (proc_heap (IRQ_RES (parent_path ops e (fst (fork_spawned ops s)) ?s4)) (fst (fork_spawned ops s))),
        IRQ_RES (parent_path ops e (fst (fork_spawned ops s)) ?s4))"
    unfolding fork_resume_def Let_def fr
    by (simp add: cp fork_spawned_fields TASK_MAGIC_def)
  note 12 = r [unfolded eq, simplified]
  note 1 = conjunct2 [OF 12] and 2 = conjunct1 [OF 12]
  show "s' = IRQ_RES (parent_path ops e (fst (fork_spawned ops s)) (snd (fork_spawned ops s)))"
    using 1 by simp
  show "pid = id' (proc_heap s' (fst (fork_spawned ops s)))"
    using 2 [unfolded 1] by simp
qed


lemma clone_spawned_fields:
  "current_process (snd (clone_spawned ops s)) = current_process s"
  "cpu_esp (snd (clone_spawned ops s)) = cpu_esp s"
  "cpu_ebp (snd (clone_spawned ops s)) = cpu_ebp s"
  "ready_queue (snd (clone_spawned ops s)) = ready_queue s"
  "interrupts (snd (clone_spawned ops s)) = interrupts s"
  by (simp_all add: clone_spawned_def Let_def split_beta do_spawn_process_def emit_def
      set_process_environment_def upd_proc_def kprintf_def)

lemma clone_Inr:
  assumes "clone ops st so e s = Inr (pid, s')"
  shows "s' = parent_path ops e (fst (clone_spawned ops s)) (snd (clone_spawned ops s))"
    and "pid = id' (proc_heap s' (fst (clone_spawned ops s)))"
proof -
  let ?s4 = "snd (clone_spawned ops s)"
  have fr: "stack_mem ?s4 (cpu_ebp ?s4) =
      \<lparr>l_magic = TASK_MAGIC, l_parent = current_process s,
       l_directory = current_directory s,
       l_new_proc = fst (clone_spawned ops s)\<rparr>"
    by (simp add: clone_spawned_def Let_def split_beta kprintf_def emit_def)
  have "clone ops st so e s = Inr (pid, s') \<Longrightarrow> clone_resume ops e ?s4 = Inr (pid, s')"
    by (simp add: clone_def clone_spawned_def Let_def split_beta split: if_splits)
  with assms have r: "clone_resume ops e ?s4 = Inr (pid, s')" by simp
  have eq: "clone_resume ops e ?s4 =
      Inr (id' (proc_heap (parent_path ops e (fst (clone_spawned ops s)) ?s4) (fst (clone_spawned ops s))),
        parent_path ops e (fst (clone_spawned ops s)) ?s4)"
    unfolding clone_resume_def Let_def fr
    by (simp add: clone_spawned_fields TASK_MAGIC_def)
  note 12 = r [unfolded eq, simplified]
  note 1 = conjunct2 [OF 12] and 2 = conjunct1 [OF 12]
  show "s' = parent_path ops e (fst (clone_spawned ops s)) (snd (clone_spawned ops s))"
    using 1 by simp
  show "pid = id' (proc_heap s' (fst (clone_spawned ops s)))"
    using 2 [unfolded 1] by simp
qed

lemma IRQ_RES_fields:
  "proc_heap (IRQ_RES s) = proc_heap s" "ready_queue (IRQ_RES s) = ready_queue s"
  "current_process (IRQ_RES s) = current_process s" "image_stack (IRQ_RES s) p = image_stack s p"
  by (simp_all add: IRQ_RES_def emit_def image_stack_def)

lemma interval_offset:
  fixes K top p :: "32 word"
  assumes "K \<le> top"
  shows "(p - (top - K) < K) = (top - K \<le> p \<and> p < top)"
  using assms by unat_arith

lemma in_kernel_stack_interval:
  "KERNEL_STACK_SIZE ops \<le> stack_v \<Longrightarrow>
     in_kernel_stack ops stack_v p = (stack_v - KERNEL_STACK_SIZE ops \<le> p \<and> p < stack_v)"
  unfolding in_kernel_stack_def by (rule interval_offset)

lemma parent_path_child_syscall_registers:
  "syscall_registers (proc_heap (parent_path ops e c s) c) =
     (image_stack s c - KERNEL_STACK_SIZE ops) +
     (syscall_registers (proc_heap (set_child_esp_ebp c (cpu_esp s) (cpu_ebp s) s) (current_process s))
        - (image_stack s (current_process s) - KERNEL_STACK_SIZE ops))"
  by (simp add: parent_path_def Let_def make_process_ready_def emit_def upd_proc_def
      move_syscall_registers_def set_child_esp_ebp_def image_stack_def)

lemma set_child_esp_ebp_other:
  "p \<noteq> c \<Longrightarrow> proc_heap (set_child_esp_ebp c a b s) p = proc_heap s p"
  by (simp add: set_child_esp_ebp_def Let_def upd_proc_def)

lemma fork_spawned_other:
  "p \<noteq> fst (fork_spawned ops s) \<Longrightarrow> proc_heap (snd (fork_spawned ops s)) p = proc_heap s p"
  using paging_only_fields(1) [OF paging_only_clone_directory [of "IRQ_OFF s" ops "current_directory (IRQ_OFF s)"]]
  by (simp add: fork_spawned_def Let_def split_beta do_spawn_process_def emit_def
      set_process_environment_def upd_proc_def IRQ_OFF_def)

lemma clone_spawned_other:
  "p \<noteq> fst (clone_spawned ops s) \<Longrightarrow> proc_heap (snd (clone_spawned ops s)) p = proc_heap s p"
  by (simp add: clone_spawned_def Let_def split_beta do_spawn_process_def emit_def
      set_process_environment_def upd_proc_def kprintf_def)

lemma parent_path_relocates:
  assumes ne: "c \<noteq> current_process s4"
    and ph: "proc_heap s4 (current_process s4) = proc_heap s (current_process s4)"
    and inp: "in_kernel_stack ops (image_stack s (current_process s4))
            (syscall_registers (proc_heap s (current_process s4)))"
  shows "in_kernel_stack ops (image_stack s4 c) (syscall_registers (proc_heap (parent_path ops e c s4) c))
     \<and> syscall_registers (proc_heap (parent_path ops e c s4) c) - (image_stack s4 c - KERNEL_STACK_SIZE ops)
       = syscall_registers (proc_heap s (current_process s4))
         - (image_stack s (current_process s4) - KERNEL_STACK_SIZE ops)"
proof -
  have st: "image_stack s4 (current_process s4) = image_stack s (current_process s4)"
    by (simp add: image_stack_def ph)
  have sr: "syscall_registers (proc_heap (parent_path ops e c s4) c) =
     (image_stack s4 c - KERNEL_STACK_SIZE ops) +
     (syscall_registers (proc_heap s (current_process s4))
        - (image_stack s (current_process s4) - KERNEL_STACK_SIZE ops))"
    using ne by (simp add: parent_path_child_syscall_registers set_child_esp_ebp_other ph st)
  have e: "b + off - b = off" for b off :: u32
    by simp
  show ?thesis
    unfolding sr in_kernel_stack_def e
    using inp [unfolded in_kernel_stack_def] by blast
qed

lemma fst_clone_directory:
  "fst (clone_directory ops src s) = fst (kvmalloc_p ops s sizeof_page_directory_t)"
  by (simp add: clone_directory_def clone_directory_init_def do_kvmalloc_p_def Let_def split_beta)

lemma fork_spawned_child:
  "fst (fork_spawned ops s) =
     fst (spawn_process ops (snd (clone_directory ops (current_directory s) (IRQ_OFF s))) (current_process s))"
  using paging_only_fields(6) [OF paging_only_clone_directory [of "IRQ_OFF s" ops "current_directory (IRQ_OFF s)"]]
  by (simp add: fork_spawned_def Let_def split_beta do_spawn_process_def IRQ_OFF_def emit_def)

lemma fork_spawned_child_record:
  "proc_heap (snd (fork_spawned ops s)) (fst (fork_spawned ops s)) =
     (snd (spawn_process ops (snd (clone_directory ops (current_directory s) (IRQ_OFF s))) (current_process s)))
       \<lparr>thread := (thread (snd (spawn_process ops (snd (clone_directory ops (current_directory s) (IRQ_OFF s))) (current_process s))))
          \<lparr>page_directory := fst (clone_directory ops (current_directory s) (IRQ_OFF s))\<rparr>\<rparr>"
  using paging_only_fields(6) [OF paging_only_clone_directory [of "IRQ_OFF s" ops "current_directory (IRQ_OFF s)"]]
  by (simp add: fork_spawned_def Let_def split_beta do_spawn_process_def IRQ_OFF_def emit_def
      set_process_environment_def upd_proc_def)

lemma fork_eq:
  "fork ops e s =
     (if current_process s = 0 then Inl (AssertionFailed ''Forked from nothing??'')
      else if fst (kvmalloc_p ops (IRQ_OFF s) sizeof_page_directory_t) = 0
        then Inl (AssertionFailed ''Could not allocate a new page directory!'')
      else if fst (fork_spawned ops s) = 0
        then Inl (AssertionFailed ''Could not allocate a new process!'')
      else Inr (id' (proc_heap (parent_path ops e (fst (fork_spawned ops s)) (snd (fork_spawned ops s)))
                  (fst (fork_spawned ops s))),
                IRQ_RES (parent_path ops e (fst (fork_spawned ops s)) (snd (fork_spawned ops s)))))"
proof -
  let ?s4 = "snd (fork_spawned ops s)"
  have fr: "stack_mem ?s4 (cpu_ebp ?s4) =
      \<lparr>l_magic = TASK_MAGIC, l_parent = current_process (IRQ_OFF s),
       l_directory = fst (clone_directory ops (current_directory (IRQ_OFF s)) (IRQ_OFF s)),
       l_new_proc = fst (fork_spawned ops s)\<rparr>"
    by (simp add: fork_spawned_def Let_def split_beta)
  have cp: "current_process (IRQ_OFF s) = current_process s"
    "current_directory (IRQ_OFF s) = current_directory s"
    by (simp_all add: IRQ_OFF_def emit_def)
  have res: "fork_resume ops e ?s4 =
      Inr (id' (proc_heap (IRQ_RES (parent_path ops e (fst (fork_spawned ops s)) ?s4)) (fst (fork_spawned ops s))),
        IRQ_RES (parent_path ops e (fst (fork_spawned ops s)) ?s4))"
    unfolding fork_resume_def Let_def fr
    by (simp add: cp fork_spawned_fields TASK_MAGIC_def)
  have "fork ops e s =
     (if current_process s = 0 then Inl (AssertionFailed ''Forked from nothing??'')
      else if fst (clone_directory ops (current_directory s) (IRQ_OFF s)) = 0
        then Inl (AssertionFailed ''Could not allocate a new page directory!'')
      else if fst (fork_spawned ops s) = 0
        then Inl (AssertionFailed ''Could not allocate a new process!'')
      else fork_resume ops e ?s4)"
    by (simp add: fork_def fork_spawned_def Let_def split_beta cp)
  then show ?thesis
    by (simp add: res fst_clone_directory IRQ_RES_fields)
qed

lemma ex_spawn [simp]:
  "spawn_process ex_ops s p = (0x300000, zero_process\<lparr>id' := 1, image' := \<lparr>stack = 0x510000\<rparr>\<rparr>)"
  by (simp add: ex_ops_def)

lemma ex_kvmalloc [simp]: "kvmalloc_p ex_ops s sz = (ex_block s, ex_block s)"
  by (simp add: ex_ops_def)

lemma ex_alloc_frame [simp]:
  "alloc_frame ex_ops s pg k w = pg\<lparr>present := True, rw := (w = 1), user := (k \<noteq> 1), frame := ex_frame s\<rparr>"
  by (simp add: ex_ops_def)

lemma ex_block_range: "0x400000 \<le> ex_block s \<and> ex_block s < 0x1400000"
proof -
  have "length (trace s) mod 0x400 < 0x400" by simp
  then have u: "unat (of_nat (length (trace s) mod 0x400) :: 32 word) = length (trace s) mod 0x400"
    by (simp add: unat_of_nat)
  have "unat (ex_block s) = 0x400000 + 0x4000 * (length (trace s) mod 0x400)"
    unfolding ex_block_def
    by (simp add: unat_word_ariths u)
  then show ?thesis
    by (simp add: word_le_nat_alt word_less_nat_alt)
qed

lemma ex_block_neq [simp]:
  "ex_block s \<noteq> 0" "ex_block s \<noteq> 0xFFFFFFFF" "ex_block s \<noteq> 0x1000" "ex_block s \<noteq> 0x3000"
  "ex_block s \<noteq> 0x10000" "ex_block s \<noteq> 0x20000"
  using ex_block_range [of s] by auto

lemma ex_frame_neq [simp]: "ex_frame s \<noteq> 0"
proof -
  have "length (trace s) mod 0x1000 < 0x1000" by simp
  then have u: "unat (of_nat (length (trace s) mod 0x1000) :: 20 word) = length (trace s) mod 0x1000"
    by (simp add: unat_of_nat)
  have v: "unat (ex_frame s) = 0x100 + length (trace s) mod 0x1000"
    unfolding ex_frame_def
    by (simp add: unat_word_ariths u)
  show ?thesis
  proof
    assume "ex_frame s = 0"
    then have "unat (ex_frame s) = 0" by simp
    with v show False by simp
  qed
qed

lemma ex_KSS [simp]: "KERNEL_STACK_SIZE ex_ops = 0x8000"
  by (simp add: ex_ops_def)

lemma ex_state_simps [simp]:
  "current_process ex_state = 0x200000" "cpu_esp ex_state = 0x4FFE00" "cpu_ebp ex_state = 0x4FFE40"
  "trace ex_state = []" "ready_queue ex_state = []" "reap_queue ex_state = []"
  "current_directory ex_state = 0x1000" "kernel_directory ex_state = 0x3000"
  "interrupts ex_state = True"
  "proc_heap ex_state 0x200000 = zero_process\<lparr>id' := 0, image' := \<lparr>stack = 0x500000\<rparr>,
           syscall_registers := 0x4FFF00\<rparr>"
  by (simp_all add: ex_state_def)

lemma ex_fork:
  "fork ex_ops e ex_state =
     Inr (id' (proc_heap (parent_path ex_ops e 0x300000 (snd (fork_spawned ex_ops ex_state))) 0x300000),
          IRQ_RES (parent_path ex_ops e 0x300000 (snd (fork_spawned ex_ops ex_state))))"
  by (simp add: fork_eq fork_spawned_child IRQ_OFF_def emit_def)

lemma parent_path_child_eip:
  "eip (thread (proc_heap (parent_path ops e c s) c)) = e"
  by (simp add: parent_path_def Let_def make_process_ready_def emit_def upd_proc_def
      move_syscall_registers_def set_child_esp_ebp_def image_stack_def)

lemma parent_path_stack_mem:
  "stack_mem (parent_path ops e c s) =
     memcpy (image_stack s c - KERNEL_STACK_SIZE ops)
       (image_stack s (current_process s) - KERNEL_STACK_SIZE ops) (KERNEL_STACK_SIZE ops) (stack_mem s)"
  by (simp add: parent_path_def Let_def make_process_ready_def emit_def upd_proc_def
      move_syscall_registers_def set_child_esp_ebp_def image_stack_def)

text \<open>The child's copy of the frame: what the parent's frame held when the stack was copied.\<close>

lemma parent_path_child_frame:
  assumes "in_kernel_stack ops (image_stack s (current_process s)) (cpu_ebp s)"
  shows "stack_mem (parent_path ops e c s) (ebp (thread (proc_heap (parent_path ops e c s) c)))
           = stack_mem s (cpu_ebp s)"
proof -
  let ?K = "KERNEL_STACK_SIZE ops" and ?tp = "image_stack s (current_process s)"
    and ?tc = "image_stack s c" and ?a = "cpu_ebp s"
  have off: "?a - (?tp - ?K) < ?K"
    using assms unfolding in_kernel_stack_def .
  have e1: "?a + (?tc - ?tp) - (?tc - ?K) = ?a - (?tp - ?K)" by simp
  have e2: "?tp - ?K + (?a - (?tp - ?K)) = ?a" by simp
  show ?thesis
    unfolding parent_path_stack_mem parent_path_child_ebp memcpy_def e1 e2
    using off by simp
qed

lemma fork_spawned_frame:
  "stack_mem (snd (fork_spawned ops s)) (cpu_ebp s) =
      \<lparr>l_magic = TASK_MAGIC, l_parent = current_process s,
       l_directory = fst (clone_directory ops (current_directory s) (IRQ_OFF s)),
       l_new_proc = fst (fork_spawned ops s)\<rparr>"
  using paging_only_fields(12) [OF paging_only_clone_directory [of "IRQ_OFF s" ops "current_directory (IRQ_OFF s)"]]
  by (simp add: fork_spawned_def Let_def split_beta do_spawn_process_def emit_def
      set_process_environment_def upd_proc_def IRQ_OFF_def)

lemma switch_next_head:
  assumes q: "ready_queue t = c # q"
    and intext: "code_start ops < eip (thread (proc_heap t c))" "eip (thread (proc_heap t c)) < code_end ops"
  shows "\<exists>t'. switch_next ops t = Inr t' \<and> current_process t' = c \<and> ready_queue t' = q
     \<and> cpu_eip t' = eip (thread (proc_heap t c)) \<and> cpu_esp t' = esp (thread (proc_heap t c))
     \<and> cpu_ebp t' = ebp (thread (proc_heap t c)) \<and> cpu_eax t' = 0x10000
     \<and> stack_mem t' = stack_mem t \<and> proc_heap t' = proc_heap t"
  using assms
  by (simp add: switch_next_def next_ready_process_def Let_def set_kernel_stack_def)

lemma clone_eq:
  "clone ops st so e s =
     (if current_process s = 0 then Inl (AssertionFailed ''Cloned from nothing??'')
      else if fst (clone_spawned ops s) = 0
        then Inl (AssertionFailed ''Could not allocate a new process!'')
      else Inr (id' (proc_heap (parent_path ops e (fst (clone_spawned ops s)) (snd (clone_spawned ops s)))
                  (fst (clone_spawned ops s))),
                parent_path ops e (fst (clone_spawned ops s)) (snd (clone_spawned ops s))))"
proof -
  let ?s4 = "snd (clone_spawned ops s)"
  have fr: "stack_mem ?s4 (cpu_ebp ?s4) =
      \<lparr>l_magic = TASK_MAGIC, l_parent = current_process s,
       l_directory = current_directory s,
       l_new_proc = fst (clone_spawned ops s)\<rparr>"
    by (simp add: clone_spawned_def Let_def split_beta kprintf_def emit_def)
  have res: "clone_resume ops e ?s4 =
      Inr (id' (proc_heap (parent_path ops e (fst (clone_spawned ops s)) ?s4) (fst (clone_spawned ops s))),
        parent_path ops e (fst (clone_spawned ops s)) ?s4)"
    unfolding clone_resume_def Let_def fr
    by (simp add: clone_spawned_fields TASK_MAGIC_def)
  have "clone ops st so e s =
     (if current_process s = 0 then Inl (AssertionFailed ''Cloned from nothing??'')
      else if fst (clone_spawned ops s) = 0
        then Inl (AssertionFailed ''Could not allocate a new process!'')
      else clone_resume ops e ?s4)"
    by (simp add: clone_def clone_spawned_def Let_def split_beta kprintf_def emit_def)
  then show ?thesis
    by (simp add: res)
qed

lemma parent_path_trace:
  "trace (parent_path ops e c s) = trace s @ [EvReady c]"
  by (simp add: parent_path_def Let_def make_process_ready_def emit_def upd_proc_def
      move_syscall_registers_def set_child_esp_ebp_def)

lemma clone_spawned_trace:
  "trace (snd (clone_spawned ops s)) =
     trace s @ [EvKprintf (regs_esp s (syscall_registers (proc_heap s (current_process s)))),
                EvSpawn (current_process s) (fst (clone_spawned ops s))]"
  by (simp add: clone_spawned_def Let_def split_beta do_spawn_process_def emit_def
      set_process_environment_def upd_proc_def kprintf_def)

lemma clone_spawned_child:
  "fst (clone_spawned ops s) =
     fst (spawn_process ops (kprintf (regs_esp s (syscall_registers (proc_heap s (current_process s)))) s)
            (current_process s))"
  by (simp add: clone_spawned_def Let_def split_beta do_spawn_process_def kprintf_def emit_def)

lemma ex_text [simp]: "code_start ex_ops = 0x100000" "code_end ex_ops = 0x200000"
  by (simp_all add: ex_ops_def)

subsection \<open>The reaping loop\<close>

lemma rq_fold:
  assumes "\<And>x s. f x (s\<lparr>reap_queue := q\<rparr>) = (f x s)\<lparr>reap_queue := q\<rparr>"
  shows "fold f xs (s\<lparr>reap_queue := q\<rparr>) = (fold f xs s)\<lparr>reap_queue := q\<rparr>"
  by (induction xs arbitrary: s) (simp_all add: assms)

lemma rq_emit: "emit e (s\<lparr>reap_queue := q\<rparr>) = (emit e s)\<lparr>reap_queue := q\<rparr>"
  by (simp add: emit_def)

lemma rq_free: "free p (s\<lparr>reap_queue := q\<rparr>) = (free p s)\<lparr>reap_queue := q\<rparr>"
  by (simp add: free_def rq_emit)

lemma rq_free_directory_page:
  "free_directory_page d i j (s\<lparr>reap_queue := q\<rparr>) = (free_directory_page d i j s)\<lparr>reap_queue := q\<rparr>"
  by (simp add: free_directory_page_def free_frame_def get_page_def rq_emit)

lemma rq_free_directory_entry:
  "free_directory_entry d i (s\<lparr>reap_queue := q\<rparr>) = (free_directory_entry d i s)\<lparr>reap_queue := q\<rparr>"
proof -
  let ?t = "fold (free_directory_page d i) [0..<1024] s"
  have "only_trace s ?t"
    by (rule only_trace_fold) (rule only_trace_free_directory_page)
  note f = only_trace_fields [OF this]
  show ?thesis
    by (simp add: free_directory_entry_def Let_def rq_fold [of "free_directory_page d i", OF rq_free_directory_page]
        rq_free f)
qed

lemma rq_free_directory:
  "free_directory d (s\<lparr>reap_queue := q\<rparr>) = (free_directory d s)\<lparr>reap_queue := q\<rparr>"
  by (simp add: free_directory_def rq_fold [of "free_directory_entry d", OF rq_free_directory_entry] rq_free)

lemma rq_reap_process:
  "reap_process ops p (s\<lparr>reap_queue := q\<rparr>) = (reap_process ops p s)\<lparr>reap_queue := q\<rparr>"
proof -
  have a: "proc_heap (free x s) = proc_heap s" "proc_heap (list_free x s) = proc_heap s"
    "proc_heap (free_directory d s) = proc_heap s" for x d s
    by (simp_all add: free_def list_free_def emit_def only_trace_fields(1) [OF only_trace_free_directory])
  show ?thesis
    by (simp add: reap_process_def Let_def list_free_def rq_emit rq_free rq_free_directory a)
qed

declare reap_loop.simps [simp del]

lemma reap_loop_eq:
  "reap_queue s = ps \<Longrightarrow> reap_loop ops s = (reap_each ops ps s)\<lparr>reap_queue := []\<rparr>"
proof (induction ps arbitrary: s)
  case Nil
  then show ?case
    by (subst reap_loop.simps) (simp add: reap_each_def should_reap_def)
next
  case (Cons p ps)
  let ?s1 = "s\<lparr>reap_queue := ps\<rparr>"
  let ?s2 = "if p \<noteq> 0 then reap_process ops p ?s1 else ?s1"
  have q: "reap_queue ?s2 = ps" by simp
  have "reap_loop ops s = reap_loop ops ?s2"
    using Cons.prems by (subst reap_loop.simps) (simp add: should_reap_def next_reapable_process_def)
  also have "\<dots> = (reap_each ops ps ?s2)\<lparr>reap_queue := []\<rparr>"
    by (rule Cons.IH [OF q])
  also have "?s2 = (if p \<noteq> 0 then reap_process ops p s else s)\<lparr>reap_queue := ps\<rparr>"
    by (simp add: rq_reap_process)
  also have "reap_each ops ps ((if p \<noteq> 0 then reap_process ops p s else s)\<lparr>reap_queue := ps\<rparr>)
      = (reap_each ops ps (if p \<noteq> 0 then reap_process ops p s else s))\<lparr>reap_queue := ps\<rparr>"
    unfolding reap_each_def
    by (rule rq_fold) (simp add: rq_reap_process)
  finally show ?case
    by (simp add: reap_each_def)
qed

lemma only_trace_reap_each: "only_trace s (reap_each ops ps s)"
  unfolding reap_each_def
  by (rule only_trace_fold) (simp add: only_trace_refl only_trace_reap_process)

subsection \<open>clone\_table\<close>

lemma get_page_simps [simp]:
  "get_page (emit e s) t i = get_page s t i"
  "get_page (upd_page t' i' f s) t i = (if t = t' \<and> i = i' then f (get_page s t i) else get_page s t i)"
  "get_page (upd_dir d g s) t i = get_page s t i"
  by (simp_all add: get_page_def emit_def upd_page_def upd_dir_def)

lemma upd_page_upd_page:
  "upd_page t i f (upd_page t i g s) = upd_page t i (f \<circ> g) s"
  by (simp add: upd_page_def)

lemma upd_page_emit: "upd_page t i f (emit e s) = emit e (upd_page t i f s)"
  by (simp add: upd_page_def emit_def)

lemma emit_emit_trace: "trace (emit e s) = trace s @ [e]"
  by (simp add: emit_def)

lemma cond_upd_page:
  "(if b then upd_page t i f s else s) = upd_page t i (\<lambda>p. if b then f p else p) s"
  by (cases s) (simp add: upd_page_def)

lemma clone_table_entry_eq:
  assumes "table \<noteq> src"
  shows "clone_table_entry ops src table i s =
     (if frame (get_page s src i) = 0 then s
      else emit (EvCopyPage (ucast (frame (get_page s src i)) * 0x1000)
                   (ucast (frame (round_page ops table i s)) * 0x1000))
             (emit (EvAllocFrame (round_page ops table i s))
                (upd_page table i (\<lambda>_. mirror_bits (get_page s src i) (round_page ops table i s)) s)))"
proof (cases "frame (get_page s src i) = 0")
  case True
  then show ?thesis by (simp add: clone_table_entry_def)
next
  case False
  have ne: "src \<noteq> table" using assms by simp
  show ?thesis
    unfolding clone_table_entry_def Let_def do_alloc_frame_def copy_page_physical_def
      round_page_def [symmetric]
    using False ne
    by (simp add: cond_upd_page upd_page_upd_page upd_page_emit comp_def mirror_bits_def
        cong: if_cong)
qed


lemma clone_table_loop_0 [simp]: "clone_table_loop ops src table 0 s = s"
  by (simp add: clone_table_loop_def)

lemma clone_table_loop_Suc:
  "clone_table_loop ops src table (Suc n) s =
     clone_table_entry ops src table n (clone_table_loop ops src table n s)"
  by (simp add: clone_table_loop_def)

lemma clone_table_entry_other:
  assumes "table \<noteq> src"
  shows "t \<noteq> table \<Longrightarrow> table_heap (clone_table_entry ops src table i s) t = table_heap s t"
    and "dir_heap (clone_table_entry ops src table i s) = dir_heap s"
  by (simp_all add: clone_table_entry_eq [OF assms] emit_def upd_page_def)

lemma clone_table_entry_page:
  assumes "table \<noteq> src"
  shows "get_page (clone_table_entry ops src table i s) table j =
     (if j = i \<and> frame (get_page s src i) \<noteq> 0
      then mirror_bits (get_page s src i) (round_page ops table i s)
      else get_page s table j)"
  by (simp add: clone_table_entry_eq [OF assms])

lemma clone_table_entry_trace:
  assumes "table \<noteq> src"
  shows "trace (clone_table_entry ops src table i s) =
           trace s @ round_events (get_page s src i) (round_page ops table i s)"
  by (simp add: clone_table_entry_eq [OF assms] round_events_def emit_def upd_page_def)

lemma clone_table_loop_other:
  assumes "table \<noteq> src"
  shows "t \<noteq> table \<Longrightarrow> table_heap (clone_table_loop ops src table n s) t = table_heap s t"
    and "dir_heap (clone_table_loop ops src table n s) = dir_heap s"
  by (induction n) (simp_all add: clone_table_loop_Suc clone_table_entry_other [OF assms])

lemma clone_table_loop_src:
  assumes "table \<noteq> src"
  shows "get_page (clone_table_loop ops src table n s) src j = get_page s src j"
  using clone_table_loop_other(1) [OF assms, of src ops n s] assms
  by (simp add: get_page_def)

lemma clone_table_loop_later:
  assumes "table \<noteq> src"
  shows "n \<le> j \<Longrightarrow> get_page (clone_table_loop ops src table n s) table j = get_page s table j"
  by (induction n) (simp_all add: clone_table_loop_Suc clone_table_entry_page [OF assms])

lemma clone_table_loop_page:
  assumes "table \<noteq> src"
  shows "j < n \<Longrightarrow> get_page (clone_table_loop ops src table n s) table j =
     (if frame (get_page s src j) = 0 then get_page s table j
      else mirror_bits (get_page s src j) (round_page ops table j (clone_table_loop ops src table j s)))"
proof (induction n)
  case 0
  then show ?case by simp
next
  case (Suc n)
  show ?case
  proof (cases "j = n")
    case True
    then show ?thesis
      by (simp add: clone_table_loop_Suc clone_table_entry_page [OF assms]
          clone_table_loop_src [OF assms] clone_table_loop_later [OF assms])
  next
    case False
    with Suc.prems have "j < n" by simp
    with Suc.IH False show ?thesis
      by (simp add: clone_table_loop_Suc clone_table_entry_page [OF assms])
  qed
qed

lemma clone_table_loop_trace:
  assumes "table \<noteq> src"
  shows "trace (clone_table_loop ops src table n s) =
     trace s @ concat (map (\<lambda>j. round_events (get_page s src j)
                              (round_page ops table j (clone_table_loop ops src table j s))) [0..<n])"
  by (induction n)
     (simp_all add: clone_table_loop_Suc clone_table_entry_trace [OF assms] clone_table_loop_src [OF assms])


lemma clone_table_init_eq:
  "clone_table_init ops s =
     (fst (kvmalloc_p ops s sizeof_page_table_t), snd (kvmalloc_p ops s sizeof_page_table_t),
      s\<lparr>table_heap := (table_heap s)(fst (kvmalloc_p ops s sizeof_page_table_t) := zero_table),
        trace := trace s @ [EvKvmalloc sizeof_page_table_t (fst (kvmalloc_p ops s sizeof_page_table_t))
                              (snd (kvmalloc_p ops s sizeof_page_table_t))]\<rparr>)"
  by (simp add: clone_table_init_def do_kvmalloc_p_def Let_def split_beta emit_def)

lemma fst_clone_table:
  "fst (clone_table ops src s) = fst (clone_table_init ops s)"
  "fst (snd (clone_table ops src s)) = fst (snd (clone_table_init ops s))"
  "snd (snd (clone_table ops src s)) =
     clone_table_loop ops src (fst (clone_table_init ops s)) 1024 (snd (snd (clone_table_init ops s)))"
  by (simp_all add: clone_table_def Let_def split_beta)

lemma clone_table_init_pages:
  "get_page (snd (snd (clone_table_init ops s))) (fst (clone_table_init ops s)) j = zero_page"
  "t \<noteq> fst (clone_table_init ops s) \<Longrightarrow> get_page (snd (snd (clone_table_init ops s))) t j = get_page s t j"
  "t \<noteq> fst (clone_table_init ops s) \<Longrightarrow> table_heap (snd (snd (clone_table_init ops s))) t = table_heap s t"
  "dir_heap (snd (snd (clone_table_init ops s))) = dir_heap s"
  by (simp_all add: clone_table_init_eq get_page_def zero_table_def)

lemma clone_table_init_trace:
  "trace (snd (snd (clone_table_init ops s))) =
     trace s @ [EvKvmalloc sizeof_page_table_t (fst (clone_table_init ops s)) (fst (snd (clone_table_init ops s)))]"
  by (simp add: clone_table_init_eq)

lemma clone_table_page:
  assumes ne: "fst (clone_table ops src s) \<noteq> src" and j: "j < 1024"
  shows "get_page (snd (snd (clone_table ops src s))) (fst (clone_table ops src s)) j =
     (if frame (get_page s src j) = 0 then zero_page
      else mirror_bits (get_page s src j)
             (round_page ops (fst (clone_table ops src s)) j
                (clone_table_loop ops src (fst (clone_table ops src s)) j (snd (snd (clone_table_init ops s))))))"
proof -
  have ne': "fst (clone_table_init ops s) \<noteq> src" "src \<noteq> fst (clone_table_init ops s)"
    using ne unfolding fst_clone_table by simp_all
  show ?thesis
    unfolding fst_clone_table
    using clone_table_loop_page [OF ne'(1), of j 1024 ops "snd (snd (clone_table_init ops s))"] j
    by (simp add: clone_table_init_pages ne')
qed

lemma clone_table_trace:
  assumes ne: "fst (clone_table ops src s) \<noteq> src"
  shows "trace (snd (snd (clone_table ops src s))) =
     trace s @ EvKvmalloc sizeof_page_table_t (fst (clone_table ops src s)) (fst (snd (clone_table ops src s)))
       # concat (map (\<lambda>j. round_events (get_page s src j)
            (round_page ops (fst (clone_table ops src s)) j
               (clone_table_loop ops src (fst (clone_table ops src s)) j (snd (snd (clone_table_init ops s))))))
          [0..<1024])"
proof -
  have ne': "fst (clone_table_init ops s) \<noteq> src" "src \<noteq> fst (clone_table_init ops s)"
    using ne unfolding fst_clone_table by simp_all
  show ?thesis
    unfolding fst_clone_table clone_table_loop_trace [OF ne'(1)]
    by (simp add: clone_table_init_pages clone_table_init_trace ne')
qed

lemma clone_table_other:
  assumes ne: "fst (clone_table ops src s) \<noteq> src"
  shows "t \<noteq> fst (clone_table ops src s) \<Longrightarrow> table_heap (snd (snd (clone_table ops src s))) t = table_heap s t"
    and "dir_heap (snd (snd (clone_table ops src s))) = dir_heap s"
  using ne unfolding fst_clone_table
  by (simp_all add: clone_table_loop_other clone_table_init_pages)

lemma round_events_zero: "frame sp = 0 \<Longrightarrow> round_events sp pg = []"
  by (simp add: round_events_def)

lemma concat_map_Nil: "(\<And>x. x \<in> set xs \<Longrightarrow> f x = []) \<Longrightarrow> concat (map f xs) = []"
  by (induction xs) simp_all

lemma clone_table_loop_trace_zero:
  assumes ne: "table \<noteq> src" and z: "\<And>j. j < n \<Longrightarrow> frame (get_page s src j) = 0"
  shows "trace (clone_table_loop ops src table n s) = trace s"
  unfolding clone_table_loop_trace [OF ne]
  using z by (simp add: concat_map_Nil round_events_zero)

lemma concat_map_single:
  assumes "k < n" and "\<And>j. j < n \<Longrightarrow> j \<noteq> k \<Longrightarrow> f j = []"
  shows "concat (map f [0..<n]) = f k"
proof -
  have s: "[0..<n] = [0..<k] @ k # [Suc k..<n]"
    using assms(1) by (metis less_imp_le_nat upt_add_eq_append upt_conv_Cons le_add_diff_inverse zero_le)
  have a: "concat (map f [0..<k]) = []"
    using assms by (intro concat_map_Nil) simp
  have b: "concat (map f [Suc k..<n]) = []"
    using assms by (intro concat_map_Nil) simp
  have "concat (map f [0..<n]) = concat (map f [0..<k]) @ f k @ concat (map f [Suc k..<n])"
    unfolding s by simp
  then show ?thesis unfolding a b by simp
qed

lemma ex_src_table [simp]:
  "get_page ex_state 0x20000 j =
     (if j = 5 then \<lparr>present = True, rw = True, user = False, accessed = False, dirty = True, frame = 0x123\<rparr>
      else zero_page)"
  by (simp add: get_page_def ex_state_def)

lemma user_mirror_bits: "user (mirror_bits sp pg) = (user sp \<or> user pg)"
  by (simp add: mirror_bits_def)

lemma ex_clone_table_ptr: "fst (clone_table ex_ops src ex_state) = 0x400000"
  by (simp add: fst_clone_table clone_table_init_eq ex_block_def)

subsection \<open>clone\_directory\<close>

lemma clone_table_entry_dir_heap [simp]:
  "dir_heap (clone_table_entry ops src table i s) = dir_heap s"
  by (simp add: clone_table_entry_def Let_def do_alloc_frame_def copy_page_physical_def
      upd_page_def emit_def)

lemma clone_table_dir_heap [simp]:
  "dir_heap (snd (snd (clone_table ops src s))) = dir_heap s"
proof -
  have "dir_heap (clone_table_loop ops src table n s) = dir_heap s" for table n s
    by (induction n) (simp_all add: clone_table_loop_Suc)
  then show ?thesis
    by (simp add: fst_clone_table clone_table_init_pages)
qed

lemma clone_table_kernel_directory [simp]:
  "kernel_directory (snd (snd (clone_table ops src s))) = kernel_directory s"
  by (rule paging_only_fields(4) [OF paging_only_clone_table])

lemma clone_directory_loop_0 [simp]: "clone_directory_loop ops src dir 0 s = s"
  by (simp add: clone_directory_loop_def)

lemma clone_directory_loop_Suc:
  "clone_directory_loop ops src dir (Suc n) s =
     clone_directory_entry ops src dir n (clone_directory_loop ops src dir n s)"
  by (simp add: clone_directory_loop_def)

lemma clone_directory_entry_kernel_directory [simp]:
  "kernel_directory (clone_directory_entry ops src dir i s) = kernel_directory s"
  by (rule paging_only_fields(4) [OF paging_only_clone_directory_entry])

lemma clone_directory_entry_other:
  "d \<noteq> dir \<Longrightarrow> dir_heap (clone_directory_entry ops src dir i s) d = dir_heap s d"
  by (simp add: clone_directory_entry_def Let_def split_beta upd_dir_def)

lemma clone_directory_entry_later:
  "i' \<noteq> i \<Longrightarrow> tables (dir_heap (clone_directory_entry ops src dir i s) dir) i' = tables (dir_heap s dir) i'"
  "i' \<noteq> i \<Longrightarrow> physical_tables (dir_heap (clone_directory_entry ops src dir i s) dir) i'
      = physical_tables (dir_heap s dir) i'"
  by (simp_all add: clone_directory_entry_def Let_def split_beta upd_dir_def)

text \<open>What one round of the loop leaves in entry \<open>i\<close> of the new directory.\<close>

lemma clone_directory_entry_tables:
  assumes "dir \<noteq> src"
  shows "tables (dir_heap (clone_directory_entry ops src dir i s) dir) i =
     (if tables (dir_heap s src) i = 0 \<or> tables (dir_heap s src) i = 0xFFFFFFFF
        then tables (dir_heap s dir) i
      else if tables (dir_heap s (kernel_directory s)) i = tables (dir_heap s src) i
        then tables (dir_heap s src) i
      else fst (clone_table ops (tables (dir_heap s src) i) s))"
    and "physical_tables (dir_heap (clone_directory_entry ops src dir i s) dir) i =
     (if tables (dir_heap s src) i = 0 \<or> tables (dir_heap s src) i = 0xFFFFFFFF
        then physical_tables (dir_heap s dir) i
      else if tables (dir_heap s (kernel_directory s)) i = tables (dir_heap s src) i
        then physical_tables (dir_heap s src) i
      else fst (snd (clone_table ops (tables (dir_heap s src) i) s)) OR 0x07)"
  using assms
  by (simp_all add: clone_directory_entry_def Let_def split_beta upd_dir_def)

lemma clone_directory_loop_other:
  "d \<noteq> dir \<Longrightarrow> dir_heap (clone_directory_loop ops src dir n s) d = dir_heap s d"
  by (induction n) (simp_all add: clone_directory_loop_Suc clone_directory_entry_other)

lemma clone_directory_loop_kernel_directory [simp]:
  "kernel_directory (clone_directory_loop ops src dir n s) = kernel_directory s"
  by (induction n) (simp_all add: clone_directory_loop_Suc)

lemma clone_directory_loop_later:
  "n \<le> i \<Longrightarrow> tables (dir_heap (clone_directory_loop ops src dir n s) dir) i = tables (dir_heap s dir) i"
  "n \<le> i \<Longrightarrow> physical_tables (dir_heap (clone_directory_loop ops src dir n s) dir) i
     = physical_tables (dir_heap s dir) i"
  by (induction n) (simp_all add: clone_directory_loop_Suc clone_directory_entry_later)

lemma clone_directory_loop_done:
  "i < n \<Longrightarrow> tables (dir_heap (clone_directory_loop ops src dir n s) dir) i =
     tables (dir_heap (clone_directory_entry ops src dir i (clone_directory_loop ops src dir i s)) dir) i"
  "i < n \<Longrightarrow> physical_tables (dir_heap (clone_directory_loop ops src dir n s) dir) i =
     physical_tables (dir_heap (clone_directory_entry ops src dir i (clone_directory_loop ops src dir i s)) dir) i"
proof (induction n)
  case 0
  { case 1 then show ?case by simp }
  { case 2 then show ?case by simp }
next
  case (Suc n)
  { case 1
    show ?case
    proof (cases "i = n")
      case True
      then show ?thesis by (simp add: clone_directory_loop_Suc)
    next
      case False
      with 1 have "i < n" by simp
      with Suc.IH(1) False show ?thesis
        by (simp add: clone_directory_loop_Suc clone_directory_entry_later)
    qed }
  { case 2
    show ?case
    proof (cases "i = n")
      case True
      then show ?thesis by (simp add: clone_directory_loop_Suc)
    next
      case False
      with 2 have "i < n" by simp
      with Suc.IH(2) False show ?thesis
        by (simp add: clone_directory_loop_Suc clone_directory_entry_later)
    qed }
qed

lemma clone_directory_init_eq:
  "clone_directory_init ops s =
     (fst (kvmalloc_p ops s sizeof_page_directory_t),
      s\<lparr>dir_heap := (dir_heap s)(fst (kvmalloc_p ops s sizeof_page_directory_t) :=
            zero_directory\<lparr>physical_address := snd (kvmalloc_p ops s sizeof_page_directory_t)
                                                   + physical_tables_offset\<rparr>),
        trace := trace s @ [EvKvmalloc sizeof_page_directory_t (fst (kvmalloc_p ops s sizeof_page_directory_t))
                              (snd (kvmalloc_p ops s sizeof_page_directory_t))]\<rparr>)"
  by (simp add: clone_directory_init_def do_kvmalloc_p_def Let_def split_beta emit_def upd_dir_def)

lemma clone_directory_split:
  "fst (clone_directory ops src s) = fst (clone_directory_init ops s)"
  "snd (clone_directory ops src s) =
     clone_directory_loop ops src (fst (clone_directory_init ops s)) 1024 (snd (clone_directory_init ops s))"
  by (simp_all add: clone_directory_def Let_def split_beta)

lemma clone_directory_init_dirs:
  "tables (dir_heap (snd (clone_directory_init ops s)) (fst (clone_directory_init ops s))) i = 0"
  "physical_tables (dir_heap (snd (clone_directory_init ops s)) (fst (clone_directory_init ops s))) i = 0"
  "d \<noteq> fst (clone_directory_init ops s) \<Longrightarrow> dir_heap (snd (clone_directory_init ops s)) d = dir_heap s d"
  "kernel_directory (snd (clone_directory_init ops s)) = kernel_directory s"
  "table_heap (snd (clone_directory_init ops s)) = table_heap s"
  by (simp_all add: clone_directory_init_eq zero_directory_def)

lemma ex_dirs [simp]:
  "tables (dir_heap ex_state 0x1000) = (\<lambda>_. 0)(0 := 0x10000, 1 := 0x20000, 2 := 0xFFFFFFFF)"
  "physical_tables (dir_heap ex_state 0x1000) = (\<lambda>_. 0)(0 := 0x10003, 1 := 0x20007, 2 := 0xFFFFFFFF)"
  "tables (dir_heap ex_state 0x3000) = (\<lambda>_. 0)(0 := 0x10000)"
  "physical_tables (dir_heap ex_state 0x3000) = (\<lambda>_. 0)(0 := 0x10003)"
  by (simp_all add: ex_state_def)

lemma ex_clone_directory_ptr: "fst (clone_directory_init ex_ops ex_state) = 0x400000"
  by (simp add: clone_directory_init_eq ex_block_def)

lemma ex_before_1:
  "trace (clone_directory_loop ex_ops 0x1000 0x400000 (Suc 0) (snd (clone_directory_init ex_ops ex_state)))
     = [EvKvmalloc sizeof_page_directory_t 0x400000 0x400000]"
proof -
  have d: "dir_heap (snd (clone_directory_init ex_ops ex_state)) 0x1000 = dir_heap ex_state 0x1000"
    "dir_heap (snd (clone_directory_init ex_ops ex_state)) 0x3000 = dir_heap ex_state 0x3000"
    by (simp_all add: clone_directory_init_dirs ex_clone_directory_ptr)
  have t: "trace (snd (clone_directory_init ex_ops ex_state)) = [EvKvmalloc sizeof_page_directory_t 0x400000 0x400000]"
    by (simp add: clone_directory_init_eq ex_block_def)
  show ?thesis
    unfolding clone_directory_loop_Suc clone_directory_loop_0
    by (simp add: clone_directory_entry_def Let_def clone_directory_init_dirs d t upd_dir_def)
qed

subsection \<open>clone\_directory followed by free\_directory\<close>

lemma projections_append [simp]:
  "frames_allocated (xs @ ys) = frames_allocated xs @ frames_allocated ys"
  "frames_freed (xs @ ys) = frames_freed xs @ frames_freed ys"
  "blocks_allocated (xs @ ys) = blocks_allocated xs @ blocks_allocated ys"
  "blocks_freed (xs @ ys) = blocks_freed xs @ blocks_freed ys"
  by (simp_all add: frames_allocated_def frames_freed_def blocks_allocated_def blocks_freed_def)

lemma projections_Nil [simp]:
  "frames_allocated [] = []" "frames_freed [] = []" "blocks_allocated [] = []" "blocks_freed [] = []"
  by (simp_all add: frames_allocated_def frames_freed_def blocks_allocated_def blocks_freed_def)

lemma projections_Cons [simp]:
  "frames_allocated (e # es) = (case e of EvAllocFrame pg \<Rightarrow> [frame pg] | _ \<Rightarrow> []) @ frames_allocated es"
  "frames_freed (e # es) = (case e of EvFreeFrame f \<Rightarrow> [f] | _ \<Rightarrow> []) @ frames_freed es"
  "blocks_allocated (e # es) = (case e of EvKvmalloc sz p ph \<Rightarrow> [p] | _ \<Rightarrow> []) @ blocks_allocated es"
  "blocks_freed (e # es) = (case e of EvFree p \<Rightarrow> [p] | _ \<Rightarrow> []) @ blocks_freed es"
  by (simp_all add: frames_allocated_def frames_freed_def blocks_allocated_def blocks_freed_def)

text \<open>Without any assumption: the rounds of \<^verbatim>\<open>clone_table\<close> add no block.\<close>

lemma clone_table_entry_blocks:
  "blocks_allocated (trace (clone_table_entry ops src table i s)) = blocks_allocated (trace s)"
  by (simp add: clone_table_entry_def Let_def do_alloc_frame_def copy_page_physical_def
      upd_page_def emit_def)

lemma clone_table_loop_blocks:
  "blocks_allocated (trace (clone_table_loop ops src table n s)) = blocks_allocated (trace s)"
  by (induction n) (simp_all add: clone_table_loop_Suc clone_table_entry_blocks)

lemma clone_table_blocks:
  "blocks_allocated (trace (snd (snd (clone_table ops src s)))) =
     blocks_allocated (trace s) @ [fst (clone_table ops src s)]"
  by (simp add: fst_clone_table clone_table_loop_blocks clone_table_init_trace)

lemma extends_refl: "extends s s"
  by (simp add: extends_def)

lemma extends_trans: "extends s s' \<Longrightarrow> extends s' s'' \<Longrightarrow> extends s s''"
  by (auto simp: extends_def)

lemma extends_drop: "extends s s' \<Longrightarrow> trace s' = trace s @ drop (length (trace s)) (trace s')"
  by (auto simp: extends_def)

lemma extends_clone_table_entry: "extends s (clone_table_entry ops src table i s)"
  by (simp add: extends_def clone_table_entry_def Let_def do_alloc_frame_def copy_page_physical_def
      upd_page_def emit_def)

lemma extends_clone_table_loop: "extends s (clone_table_loop ops src table n s)"
  by (induction n)
     (auto simp: clone_table_loop_Suc extends_refl intro: extends_trans extends_clone_table_entry)

lemma extends_clone_table: "extends s (snd (snd (clone_table ops src s)))"
proof -
  have "extends s (snd (snd (clone_table_init ops s)))"
    by (simp add: extends_def clone_table_init_trace)
  then show ?thesis
    unfolding fst_clone_table by (rule extends_trans) (rule extends_clone_table_loop)
qed

lemma extends_clone_directory_entry: "extends s (clone_directory_entry ops src dir i s)"
proof -
  have "extends s (upd_dir d f (upd_dir d' g s'))" if "extends s s'" for d f d' g s'
    using that by (simp add: extends_def upd_dir_def)
  from this [OF extends_refl] this [OF extends_clone_table]
  show ?thesis
    by (simp add: clone_directory_entry_def Let_def split_beta extends_refl)
qed

lemma extends_clone_directory_loop:
  "n \<le> m \<Longrightarrow> extends (clone_directory_loop ops src dir n s) (clone_directory_loop ops src dir m s)"
proof (induction m)
  case 0
  then show ?case by (simp add: extends_refl)
next
  case (Suc m)
  show ?case
  proof (cases "n = Suc m")
    case True
    then show ?thesis by (simp add: extends_refl)
  next
    case False
    with Suc.prems have "n \<le> m" by simp
    from extends_trans [OF Suc.IH [OF this] extends_clone_directory_entry]
    show ?thesis by (simp add: clone_directory_loop_Suc)
  qed
qed


lemma dir_round_0: "dir_round ops src s 0 = snd (clone_directory_init ops s)"
  by (simp add: dir_round_def)

lemma dir_round_Suc:
  "dir_round ops src s (Suc i) =
     clone_directory_entry ops src (fst (clone_directory_init ops s)) i (dir_round ops src s i)"
  by (simp add: dir_round_def clone_directory_loop_Suc)

lemma dir_round_final: "snd (clone_directory ops src s) = dir_round ops src s 1024"
  by (simp add: dir_round_def clone_directory_split)

lemma dir_round_reads:
  assumes "fst (clone_directory_init ops s) \<noteq> src" "fst (clone_directory_init ops s) \<noteq> kernel_directory s"
  shows "dir_heap (dir_round ops src s i) src = dir_heap s src"
    and "kernel_directory (dir_round ops src s i) = kernel_directory s"
    and "dir_heap (dir_round ops src s i) (kernel_directory s) = dir_heap s (kernel_directory s)"
  using assms
  by (simp_all add: dir_round_def clone_directory_loop_other clone_directory_init_dirs)

lemma dir_round_step:
  assumes "fst (clone_directory_init ops s) \<noteq> src" "fst (clone_directory_init ops s) \<noteq> kernel_directory s"
  shows "trace (dir_round ops src s (Suc i)) =
      (if deep src s i
       then trace (snd (snd (clone_table ops (tables (dir_heap s src) i) (dir_round ops src s i))))
       else trace (dir_round ops src s i))"
    and "table_heap (dir_round ops src s (Suc i)) =
      (if deep src s i
       then table_heap (snd (snd (clone_table ops (tables (dir_heap s src) i) (dir_round ops src s i))))
       else table_heap (dir_round ops src s i))"
  unfolding dir_round_Suc clone_directory_entry_def Let_def split_beta
  by (simp_all add: dir_round_reads [OF assms] deep_def upd_dir_def)

lemma filter_upt_Suc:
  "filter P [0..<Suc n] = filter P [0..<n] @ (if P n then [n] else [])"
  by simp

lemma dir_round_blocks:
  assumes "fst (clone_directory_init ops s) \<noteq> src" "fst (clone_directory_init ops s) \<noteq> kernel_directory s"
  shows "blocks_allocated (trace (dir_round ops src s n)) =
     blocks_allocated (trace s) @ fst (clone_directory_init ops s)
       # map (new_table ops src s) (filter (deep src s) [0..<n])"
proof (induction n)
  case 0
  show ?case by (simp add: dir_round_0 clone_directory_init_eq)
next
  case (Suc n)
  show ?case
    unfolding dir_round_step(1) [OF assms] filter_upt_Suc
    by (simp add: Suc.IH clone_table_blocks new_table_def)
qed

lemma dir_in_blocks:
  "fst (clone_directory ops src s)
     \<in> set (blocks_allocated (drop (length (trace s)) (trace (snd (clone_directory ops src s)))))"
proof -
  have "extends (dir_round ops src s 0) (dir_round ops src s 1024)"
    unfolding dir_round_def by (rule extends_clone_directory_loop) simp
  then obtain es where "trace (dir_round ops src s 1024) = trace (dir_round ops src s 0) @ es"
    by (auto simp: extends_def)
  then show ?thesis
    by (simp add: dir_round_final dir_round_0 clone_directory_init_eq clone_directory_split)
qed


lemma frame_mirror_bits [simp]: "frame (mirror_bits sp pg) = frame pg"
  by (simp add: mirror_bits_def)

lemma frames_allocated_round_events:
  "frames_allocated (round_events sp pg) = (if frame sp = 0 then [] else [frame pg])"
  by (simp add: round_events_def)

lemma frames_allocated_concat:
  "frames_allocated (concat (map f xs)) = concat (map (\<lambda>x. frames_allocated (f x)) xs)"
  by (induction xs) simp_all

text \<open>The frames \<^verbatim>\<open>clone_table\<close> allocates are the frames of the table it returns.\<close>

lemma clone_table_frames:
  assumes ne: "fst (clone_table ops src s) \<noteq> src"
    and nz: "\<forall>s pg k w. frame (alloc_frame ops s pg k w) \<noteq> 0"
  shows "frames_allocated (trace (snd (snd (clone_table ops src s)))) =
     frames_allocated (trace s) @ table_frames (snd (snd (clone_table ops src s))) (fst (clone_table ops src s))"
proof -
  let ?np = "\<lambda>j. round_page ops (fst (clone_table ops src s)) j
       (clone_table_loop ops src (fst (clone_table ops src s)) j (snd (snd (clone_table_init ops s))))"
  have a: "frame (?np j) \<noteq> 0" for j
    using nz by (simp add: round_page_def)
  have "table_frames (snd (snd (clone_table ops src s))) (fst (clone_table ops src s)) =
      concat (map (\<lambda>j. if frame (get_page s src j) = 0 then [] else [frame (?np j)]) [0..<1024])"
    unfolding table_frames_def
    by (rule arg_cong [where f = concat], rule map_cong [OF refl])
       (simp add: clone_table_page [OF ne] a zero_page_def)
  then show ?thesis
    unfolding clone_table_trace [OF ne]
    by (simp add: frames_allocated_concat frames_allocated_round_events)
qed

lemma table_frames_cong:
  assumes "table_heap s t = table_heap s' t"
  shows "table_frames s t = table_frames s' t"
proof -
  have "get_page s t j = get_page s' t j" for j
    using assms by (simp add: get_page_def)
  then show ?thesis
    unfolding table_frames_def by (simp cong: if_cong)
qed

lemma concat_map_if_filter:
  "concat (map (\<lambda>x. if P x then f x else []) xs) = concat (map f (filter P xs))"
  by (induction xs) simp_all

text \<open>What fresh blocks give for the tables the loop clones.\<close>

lemma fresh_blocks_dir:
  assumes "fresh_blocks ops src s"
  shows "fst (clone_directory_init ops s) \<noteq> src" "fst (clone_directory_init ops s) \<noteq> kernel_directory s"
    "fst (clone_directory_init ops s) \<noteq> 0" "fst (clone_directory_init ops s) \<noteq> 0xFFFFFFFF"
    "i < 1024 \<Longrightarrow> fst (clone_directory_init ops s) \<noteq> tables (dir_heap s (kernel_directory s)) i"
  using assms dir_in_blocks [of ops src s]
  unfolding fresh_blocks_def cloned_events_def clone_directory_split by blast+

lemma cloned_blocks:
  assumes "fresh_blocks ops src s"
  shows "blocks_allocated (cloned_events ops src s) =
     fst (clone_directory_init ops s) # map (new_table ops src s) (filter (deep src s) [0..<1024])"
proof -
  note d = fresh_blocks_dir(1,2) [OF assms]
  have "extends s (dir_round ops src s 0)"
    by (simp add: extends_def dir_round_0 clone_directory_init_eq)
  moreover have "extends (dir_round ops src s 0) (dir_round ops src s 1024)"
    unfolding dir_round_def by (rule extends_clone_directory_loop) simp
  ultimately have "extends s (dir_round ops src s 1024)"
    by (rule extends_trans)
  then have "trace (dir_round ops src s 1024) = trace s @ cloned_events ops src s"
    unfolding cloned_events_def dir_round_final by (rule extends_drop)
  then have "blocks_allocated (trace (dir_round ops src s 1024)) =
      blocks_allocated (trace s) @ blocks_allocated (cloned_events ops src s)"
    by simp
  then show ?thesis
    unfolding dir_round_blocks [OF d] by simp
qed

lemma fresh_blocks_table:
  assumes f: "fresh_blocks ops src s" and i: "i < 1024" and dp: "deep src s i"
  shows "new_table ops src s i \<noteq> 0" "new_table ops src s i \<noteq> 0xFFFFFFFF"
    "k < 1024 \<Longrightarrow> new_table ops src s i \<noteq> tables (dir_heap s src) k"
    "k < 1024 \<Longrightarrow> new_table ops src s i \<noteq> tables (dir_heap s (kernel_directory s)) k"
    "k < 1024 \<Longrightarrow> deep src s k \<Longrightarrow> k \<noteq> i \<Longrightarrow> new_table ops src s k \<noteq> new_table ops src s i"
proof -
  let ?xs = "filter (deep src s) [0..<1024]"
  have mem: "new_table ops src s i \<in> set (blocks_allocated (cloned_events ops src s))"
    using i dp unfolding cloned_blocks [OF f] by simp
  with f show "new_table ops src s i \<noteq> 0" "new_table ops src s i \<noteq> 0xFFFFFFFF"
    unfolding fresh_blocks_def by blast+
  from f mem show "k < 1024 \<Longrightarrow> new_table ops src s i \<noteq> tables (dir_heap s src) k"
    unfolding fresh_blocks_def by blast
  from f mem show "k < 1024 \<Longrightarrow> new_table ops src s i \<noteq> tables (dir_heap s (kernel_directory s)) k"
    unfolding fresh_blocks_def by blast
  have "distinct (map (new_table ops src s) ?xs)"
    using f unfolding fresh_blocks_def cloned_blocks [OF f] by simp
  then have inj: "inj_on (new_table ops src s) (set ?xs)"
    by (simp add: distinct_map)
  show "k < 1024 \<Longrightarrow> deep src s k \<Longrightarrow> k \<noteq> i \<Longrightarrow> new_table ops src s k \<noteq> new_table ops src s i"
    using inj i dp by (auto simp: inj_on_def)
qed


text \<open>The frames allocated up to round n are the frames of the tables cloned so far.\<close>

lemma dir_round_frames:
  assumes f: "fresh_blocks ops src s"
    and nz: "\<forall>s pg k w. frame (alloc_frame ops s pg k w) \<noteq> 0"
  shows "n \<le> 1024 \<Longrightarrow> frames_allocated (trace (dir_round ops src s n)) =
     frames_allocated (trace s)
       @ concat (map (\<lambda>i. table_frames (dir_round ops src s n) (new_table ops src s i))
                   (filter (deep src s) [0..<n]))"
proof (induction n)
  case 0
  show ?case by (simp add: dir_round_0 clone_directory_init_eq)
next
  case (Suc n)
  note d = fresh_blocks_dir(1,2) [OF f]
  from Suc.prems have n: "n < 1024" by simp
  show ?case
  proof (cases "deep src s n")
    case False
    have "table_frames (dir_round ops src s (Suc n)) t = table_frames (dir_round ops src s n) t" for t
      by (rule table_frames_cong) (simp add: dir_round_step(2) [OF d] False)
    with Suc.IH n False show ?thesis
      by (simp add: dir_round_step(1) [OF d])
  next
    case True
    let ?S = "tables (dir_heap s src) n" and ?st = "dir_round ops src s n"
    have ne: "fst (clone_table ops ?S ?st) \<noteq> ?S"
      using fresh_blocks_table(3) [OF f n True n] by (simp add: new_table_def)
    have keep: "table_frames (dir_round ops src s (Suc n)) (new_table ops src s i)
        = table_frames ?st (new_table ops src s i)"
      if "i \<in> set (filter (deep src s) [0..<n])" for i
    proof (rule table_frames_cong)
      from that have i: "i < 1024" "deep src s i" "i \<noteq> n" using n by auto
      have "new_table ops src s i \<noteq> fst (clone_table ops ?S ?st)"
        using fresh_blocks_table(5) [OF f n True i(1,2)] i(3) by (simp add: new_table_def)
      then show "table_heap (dir_round ops src s (Suc n)) (new_table ops src s i)
          = table_heap ?st (new_table ops src s i)"
        by (simp add: dir_round_step(2) [OF d] True clone_table_other(1) [OF ne])
    qed
    have new: "table_frames (dir_round ops src s (Suc n)) (new_table ops src s n)
        = table_frames (snd (snd (clone_table ops ?S ?st))) (fst (clone_table ops ?S ?st))"
      unfolding new_table_def
      by (rule table_frames_cong) (simp add: dir_round_step(2) [OF d] True)
    have "concat (map (\<lambda>i. table_frames (dir_round ops src s (Suc n)) (new_table ops src s i))
                   (filter (deep src s) [0..<n]))
        = concat (map (\<lambda>i. table_frames ?st (new_table ops src s i)) (filter (deep src s) [0..<n]))"
      by (rule arg_cong [where f = concat], rule map_cong [OF refl]) (rule keep)
    with Suc.IH n True show ?thesis
      unfolding filter_upt_Suc
      by (simp add: dir_round_step(1) [OF d] clone_table_frames [OF ne nz] new)
  qed
qed

text \<open>The entries of the new directory, once the loop has passed them.\<close>

lemma dir_round_tables:
  assumes d: "fst (clone_directory_init ops s) \<noteq> src" "fst (clone_directory_init ops s) \<noteq> kernel_directory s"
    and i: "i < n"
  shows "tables (dir_heap (dir_round ops src s n) (fst (clone_directory_init ops s))) i =
     (if deep src s i then new_table ops src s i
      else if tables (dir_heap s src) i = 0 \<or> tables (dir_heap s src) i = 0xFFFFFFFF then 0
      else tables (dir_heap s src) i)"
proof -
  have old: "tables (dir_heap (dir_round ops src s i) (fst (clone_directory_init ops s))) i = 0"
    unfolding dir_round_def by (simp add: clone_directory_loop_later clone_directory_init_dirs)
  show ?thesis
    unfolding dir_round_def clone_directory_loop_done(1) [OF i]
    unfolding dir_round_def [symmetric]
    by (simp add: clone_directory_entry_tables(1) [OF d(1)] dir_round_reads [OF d] old
        deep_def new_table_def)
qed


lemma fold_trace:
  assumes ot: "\<And>x s. only_trace s (f x s)"
    and tr: "\<And>x s. trace (f x s) = trace s @ g s x"
    and inv: "\<And>x s s'. only_trace s s' \<Longrightarrow> g s' x = g s x"
  shows "trace (fold f xs s) = trace s @ concat (map (g s) xs)"
proof (induction xs arbitrary: s)
  case Nil
  show ?case by simp
next
  case (Cons x xs)
  have m: "map (g (f x s)) xs = map (g s) xs"
    by (rule map_cong [OF refl]) (rule inv [OF ot])
  show ?case
    by (simp add: Cons.IH tr m)
qed

lemma only_trace_get_page: "only_trace s s' \<Longrightarrow> get_page s' t j = get_page s t j"
  by (simp add: get_page_def only_trace_fields)

lemma page_events_inv: "only_trace s s' \<Longrightarrow> page_events s' t j = page_events s t j"
  by (simp add: page_events_def only_trace_get_page)

lemma owned_inv: "only_trace s s' \<Longrightarrow> owned s' d i = owned s d i"
  by (simp add: owned_def only_trace_fields)

lemma entry_events_inv: "only_trace s s' \<Longrightarrow> entry_events s' d i = entry_events s d i"
proof -
  assume a: "only_trace s s'"
  have "page_events s' t = page_events s t" for t
    by (rule ext) (rule page_events_inv [OF a])
  then show ?thesis
    by (simp add: entry_events_def owned_inv [OF a] only_trace_fields [OF a])
qed

lemma free_directory_page_trace:
  "trace (free_directory_page d i j s) = trace s @ page_events s (tables (dir_heap s d) i) j"
  by (simp add: free_directory_page_def free_frame_def page_events_def emit_def)

lemma free_pages_trace:
  "trace (fold (free_directory_page d i) xs s) =
     trace s @ concat (map (page_events s (tables (dir_heap s d) i)) xs)"
proof -
  have "trace (fold (free_directory_page d i) xs s) =
      trace s @ concat (map ((\<lambda>s. page_events s (tables (dir_heap s d) i)) s) xs)"
    by (rule fold_trace)
       (simp_all add: only_trace_free_directory_page free_directory_page_trace page_events_inv
          only_trace_fields)
  then show ?thesis by simp
qed

lemma free_directory_entry_trace:
  "trace (free_directory_entry d i s) = trace s @ entry_events s d i"
proof -
  let ?t = "fold (free_directory_page d i) [0..<1024] s"
  have ot: "only_trace s ?t"
    by (rule only_trace_fold) (rule only_trace_free_directory_page)
  show ?thesis
    by (auto simp: free_directory_entry_def Let_def entry_events_def owned_def free_def emit_def
        free_pages_trace only_trace_fields [OF ot])
qed

lemma free_directory_trace:
  "trace (free_directory d s) = trace s @ concat (map (entry_events s d) [0..<1024]) @ [EvFree d]"
proof -
  have "trace (fold (free_directory_entry d) [0..<1024] s) =
      trace s @ concat (map ((\<lambda>s. entry_events s d) s) [0..<1024])"
    by (rule fold_trace)
       (simp_all add: only_trace_free_directory_entry free_directory_entry_trace entry_events_inv)
  then show ?thesis
    by (simp add: free_directory_def free_def emit_def)
qed

lemma frames_freed_page_events:
  "frames_freed (concat (map (page_events s t) [0..<1024])) = table_frames s t"
proof -
  have "frames_freed (concat (map f xs)) = concat (map (\<lambda>x. frames_freed (f x)) xs)"
    for f :: "nat \<Rightarrow> event list" and xs
    by (induction xs) simp_all
  then show ?thesis
    unfolding table_frames_def
    by (simp add: page_events_def if_distrib [where f = frames_freed] cong: if_cong)
qed

lemma blocks_freed_page_events:
  "blocks_freed (concat (map (page_events s t) xs)) = []"
  by (induction xs) (simp_all add: page_events_def)

lemma frames_freed_entry_events:
  "frames_freed (entry_events s d i) = (if owned s d i then table_frames s (tables (dir_heap s d) i) else [])"
  by (simp add: entry_events_def frames_freed_page_events)

lemma blocks_freed_entry_events:
  "blocks_freed (entry_events s d i) = (if owned s d i then [tables (dir_heap s d) i] else [])"
  by (simp add: entry_events_def blocks_freed_page_events)

lemma projections_concat:
  "frames_freed (concat (map f xs)) = concat (map (\<lambda>x. frames_freed (f x)) xs)"
  "blocks_freed (concat (map f xs)) = concat (map (\<lambda>x. blocks_freed (f x)) xs)"
  by (induction xs) simp_all


lemma cloned_trace:
  "trace (snd (clone_directory ops src s)) = trace s @ cloned_events ops src s"
proof -
  have "extends s (dir_round ops src s 0)"
    by (simp add: extends_def dir_round_0 clone_directory_init_eq)
  moreover have "extends (dir_round ops src s 0) (dir_round ops src s 1024)"
    unfolding dir_round_def by (rule extends_clone_directory_loop) simp
  ultimately have "extends s (dir_round ops src s 1024)"
    by (rule extends_trans)
  then show ?thesis
    unfolding cloned_events_def dir_round_final by (rule extends_drop)
qed

lemma freed_trace:
  "freed_events ops src s =
     concat (map (entry_events (snd (clone_directory ops src s)) (fst (clone_directory ops src s))) [0..<1024])
       @ [EvFree (fst (clone_directory ops src s))]"
  by (simp add: freed_events_def free_directory_trace)

text \<open>After the clone, the tables the new directory owns are the tables the loop cloned.\<close>

lemma owned_after_clone:
  assumes f: "fresh_blocks ops src s" and i: "i < 1024"
  shows "owned (snd (clone_directory ops src s)) (fst (clone_directory ops src s)) i = deep src s i"
    and "deep src s i \<Longrightarrow>
      tables (dir_heap (snd (clone_directory ops src s)) (fst (clone_directory ops src s))) i
        = new_table ops src s i"
    and "\<not> deep src s i \<Longrightarrow>
      tables (dir_heap (snd (clone_directory ops src s)) (fst (clone_directory ops src s))) i = 0
      \<or> tables (dir_heap (snd (clone_directory ops src s)) (fst (clone_directory ops src s))) i
          = tables (dir_heap s (kernel_directory s)) i"
proof -
  note d = fresh_blocks_dir(1,2) [OF f]
  let ?D = "tables (dir_heap (snd (clone_directory ops src s)) (fst (clone_directory ops src s))) i"
  have D: "?D = (if deep src s i then new_table ops src s i
      else if tables (dir_heap s src) i = 0 \<or> tables (dir_heap s src) i = 0xFFFFFFFF then 0
      else tables (dir_heap s src) i)"
    unfolding dir_round_final clone_directory_split(1) using i by (rule dir_round_tables [OF d])
  have K: "tables (dir_heap (snd (clone_directory ops src s))
               (kernel_directory (snd (clone_directory ops src s)))) i
      = tables (dir_heap s (kernel_directory s)) i"
    unfolding dir_round_final by (simp add: dir_round_reads [OF d])
  show "deep src s i \<Longrightarrow> ?D = new_table ops src s i"
    by (simp add: D)
  show "\<not> deep src s i \<Longrightarrow> ?D = 0 \<or> ?D = tables (dir_heap s (kernel_directory s)) i"
    by (auto simp: D deep_def)
  show "owned (snd (clone_directory ops src s)) (fst (clone_directory ops src s)) i = deep src s i"
  proof (cases "deep src s i")
    case True
    with fresh_blocks_table(1,2) [OF f i True] fresh_blocks_table(4) [OF f i True i] show ?thesis
      unfolding owned_def K D by auto
  next
    case False
    then show ?thesis
      unfolding owned_def K D by (auto simp: deep_def)
  qed
qed

lemma dir_round_skip:
  assumes d: "fst (clone_directory_init ops s) \<noteq> src" "fst (clone_directory_init ops s) \<noteq> kernel_directory s"
    and nd: "\<And>i. a \<le> i \<Longrightarrow> i < a + k \<Longrightarrow> \<not> deep src s i"
  shows "trace (dir_round ops src s (a + k)) = trace (dir_round ops src s a)"
    and "table_heap (dir_round ops src s (a + k)) = table_heap (dir_round ops src s a)"
  using nd
  by (induction k) (simp_all add: dir_round_step [OF d])

lemma filter_eq_upt: "k < n \<Longrightarrow> filter (\<lambda>i. i = k) [0..<n] = [k]"
proof (induction n)
  case 0
  then show ?case by simp
next
  case (Suc n)
  show ?case
  proof (cases "k = n")
    case True
    have "filter (\<lambda>i. i = n) [0..<n] = []"
      by (simp add: filter_empty_conv)
    with True show ?thesis by simp
  next
    case False
    with Suc show ?thesis by simp
  qed
qed

lemma ex_deep: "deep 0x1000 ex_state i = (i = 1)"
  by (simp add: deep_def)

lemma ex_dir_ne:
  "fst (clone_directory_init ex_ops ex_state) \<noteq> 0x1000"
  "fst (clone_directory_init ex_ops ex_state) \<noteq> kernel_directory ex_state"
  by (simp_all add: ex_clone_directory_ptr)

lemma ex_round_1:
  "trace (dir_round ex_ops 0x1000 ex_state (Suc 0)) = [EvKvmalloc sizeof_page_directory_t 0x400000 0x400000]"
  "table_heap (dir_round ex_ops 0x1000 ex_state (Suc 0)) = table_heap ex_state"
  by (simp_all add: dir_round_step [OF ex_dir_ne] ex_deep dir_round_0 clone_directory_init_eq ex_block_def)

lemma ex_new_table: "new_table ex_ops 0x1000 ex_state (Suc 0) = 0x404000"
  by (simp add: new_table_def fst_clone_table clone_table_init_eq ex_block_def ex_round_1)

lemma ex_cloned_blocks:
  "blocks_allocated (cloned_events ex_ops 0x1000 ex_state) = [0x400000, 0x404000]"
proof -
  have "filter (deep 0x1000 ex_state) [0..<1024] = [Suc 0]"
    using filter_eq_upt [of 1 1024] by (simp add: ex_deep [abs_def])
  then have "blocks_allocated (trace (dir_round ex_ops 0x1000 ex_state 1024)) = [0x400000, 0x404000]"
    unfolding dir_round_blocks [OF ex_dir_ne]
    by (simp add: ex_clone_directory_ptr ex_new_table)
  then show ?thesis
    unfolding cloned_trace [of ex_ops "0x1000" ex_state, unfolded dir_round_final] by simp
qed

lemma ex_tables_cases:
  "i < 1024 \<Longrightarrow> tables (dir_heap ex_state 0x1000) i \<in> {0, 0x10000, 0x20000, 0xFFFFFFFF}"
  "i < 1024 \<Longrightarrow> tables (dir_heap ex_state 0x3000) i \<in> {0, 0x10000}"
  by simp_all

lemma ex_fresh_blocks: "fresh_blocks ex_ops 0x1000 ex_state"
  unfolding fresh_blocks_def ex_cloned_blocks
  using ex_tables_cases by (auto simp: fun_upd_def)


lemma ex_cloned_events:
  "cloned_events ex_ops 0x1000 ex_state =
     [EvKvmalloc 8196 0x400000 0x400000, EvKvmalloc 4096 0x404000 0x404000,
      EvAllocFrame \<lparr>present = True, rw = False, user = True, accessed = False, dirty = False, frame = 0x102\<rparr>,
      EvCopyPage 0x123000 0x102000]"
proof -
  let ?st = "dir_round ex_ops 0x1000 ex_state (Suc 0)"
  let ?s1 = "snd (snd (clone_table_init ex_ops ?st))"
  have T: "fst (clone_table ex_ops 0x20000 ?st) = 0x404000"
    using ex_new_table by (simp add: new_table_def)
  have T': "fst (clone_table_init ex_ops ?st) = 0x404000"
    using T by (simp add: fst_clone_table)
  have phys: "fst (snd (clone_table ex_ops 0x20000 ?st)) = 0x404000"
    by (simp add: fst_clone_table clone_table_init_eq ex_block_def ex_round_1)
  have ne: "fst (clone_table ex_ops 0x20000 ?st) \<noteq> 0x20000"
    by (simp add: T)
  have src0: "get_page ?st 0x20000 j = get_page ex_state 0x20000 j" for j
    by (simp add: get_page_def ex_round_1)
  have src1: "get_page ?s1 0x20000 j = get_page ex_state 0x20000 j" for j
    using clone_table_init_pages(2) [of "0x20000" ex_ops ?st j] by (simp add: T' src0)
  have tr5: "trace (clone_table_loop ex_ops 0x20000 0x404000 5 ?s1) = trace ?s1"
    by (rule clone_table_loop_trace_zero) (simp_all add: src1 zero_page_def)
  have len: "length (trace ?s1) = 2"
    by (simp add: clone_table_init_trace ex_round_1)
  have np: "round_page ex_ops 0x404000 5 (clone_table_loop ex_ops 0x20000 0x404000 5 ?s1) =
      \<lparr>present = True, rw = False, user = True, accessed = False, dirty = False, frame = 0x102\<rparr>"
    using clone_table_loop_later [of "0x404000" "0x20000" 5 5 ex_ops ?s1]
      clone_table_init_pages(1) [of ex_ops ?st 5, unfolded T']
    by (simp add: round_page_def ex_frame_def tr5 len zero_page_def)
  have ev: "concat (map (\<lambda>j. round_events (get_page ?st 0x20000 j)
          (round_page ex_ops 0x404000 j (clone_table_loop ex_ops 0x20000 0x404000 j ?s1))) [0..<1024])
        = round_events (get_page ?st 0x20000 5)
          (round_page ex_ops 0x404000 5 (clone_table_loop ex_ops 0x20000 0x404000 5 ?s1))"
    by (rule concat_map_single) (simp_all add: round_events_zero zero_page_def src0)
  have t2: "trace (dir_round ex_ops 0x1000 ex_state (Suc (Suc 0))) =
     [EvKvmalloc 8196 0x400000 0x400000, EvKvmalloc 4096 0x404000 0x404000,
      EvAllocFrame \<lparr>present = True, rw = False, user = True, accessed = False, dirty = False, frame = 0x102\<rparr>,
      EvCopyPage 0x123000 0x102000]"
    unfolding dir_round_step(1) [OF ex_dir_ne, of "Suc 0"]
    using clone_table_trace [OF ne]
    unfolding T phys ev np
    by (simp add: ex_deep ex_round_1 round_events_def src0 sizeof_page_table_t_def
        sizeof_page_directory_t_def)
  have "trace (dir_round ex_ops 0x1000 ex_state (2 + 1022)) = trace (dir_round ex_ops 0x1000 ex_state 2)"
    by (rule dir_round_skip(1) [OF ex_dir_ne]) (simp add: ex_deep)
  then have "trace (dir_round ex_ops 0x1000 ex_state 1024) = trace (dir_round ex_ops 0x1000 ex_state (Suc (Suc 0)))"
    by (simp add: numeral_2_eq_2)
  then show ?thesis
    using cloned_trace [of ex_ops "0x1000" ex_state]
    unfolding dir_round_final t2 by simp
qed

subsection \<open>Interrupts in fork and clone\<close>

lemma irq_clone_table_entry:
  "irq_events (trace (clone_table_entry ops src table i s)) = irq_events (trace s)"
  by (simp add: clone_table_entry_def Let_def do_alloc_frame_def copy_page_physical_def
      upd_page_def emit_def irq_events_def)

lemma irq_clone_table_loop:
  "irq_events (trace (clone_table_loop ops src table n s)) = irq_events (trace s)"
  by (induction n) (simp_all add: clone_table_loop_Suc irq_clone_table_entry)

lemma irq_clone_table:
  "irq_events (trace (snd (snd (clone_table ops src s)))) = irq_events (trace s)"
proof -
  have "irq_events (trace (snd (snd (clone_table_init ops s)))) = irq_events (trace s)"
    by (simp add: clone_table_init_trace irq_events_def)
  then show ?thesis
    by (simp add: fst_clone_table irq_clone_table_loop)
qed

lemma irq_clone_directory_entry:
  "irq_events (trace (clone_directory_entry ops src dir i s)) = irq_events (trace s)"
  by (simp add: clone_directory_entry_def Let_def split_beta upd_dir_def irq_clone_table)

lemma irq_clone_directory_loop:
  "irq_events (trace (clone_directory_loop ops src dir n s)) = irq_events (trace s)"
  by (induction n) (simp_all add: clone_directory_loop_Suc irq_clone_directory_entry)

lemma irq_cloned_events: "irq_events (cloned_events ops src s) = []"
proof -
  have "irq_events (trace (snd (clone_directory_init ops s))) = irq_events (trace s)"
    by (simp add: clone_directory_init_eq irq_events_def)
  then have "irq_events (trace (snd (clone_directory ops src s))) = irq_events (trace s)"
    by (simp add: clone_directory_split irq_clone_directory_loop)
  then show ?thesis
    unfolding cloned_trace by (simp add: irq_events_def)
qed

lemma fork_spawned_trace:
  "trace (snd (fork_spawned ops s)) =
     trace s @ EvIrqOff # cloned_events ops (current_directory s) (IRQ_OFF s)
       @ [EvSpawn (current_process s) (fst (fork_spawned ops s))]"
  using paging_only_fields(6) [OF paging_only_clone_directory [of "IRQ_OFF s" ops "current_directory (IRQ_OFF s)"]]
    cloned_trace [of ops "current_directory s" "IRQ_OFF s"]
  by (simp add: fork_spawned_def Let_def split_beta do_spawn_process_def emit_def
      set_process_environment_def upd_proc_def IRQ_OFF_def)

text \<open>fork: interrupts go off first, come back on last, right after the child is enqueued,
  and nothing in between touches them.\<close>

lemma fork_interrupts:
  assumes "fork ops eip_v s = Inr (pid, s')"
  shows "interrupts s'"
    and "\<exists>mid. trace s' = trace s @ EvIrqOff # mid @ [EvReady (last (ready_queue s')), EvIrqRes]
            \<and> irq_events mid = []"
proof -
  note s' = fork_Inr(1) [OF assms]
  show "interrupts s'"
    unfolding s' by (simp add: IRQ_RES_def emit_def)
  have c: "last (ready_queue s') = fst (fork_spawned ops s)"
    unfolding s' by (simp add: IRQ_RES_fields parent_path_fields)
  have "trace s' = trace s @ EvIrqOff # (cloned_events ops (current_directory s) (IRQ_OFF s)
       @ [EvSpawn (current_process s) (fst (fork_spawned ops s))])
       @ [EvReady (last (ready_queue s')), EvIrqRes]"
    unfolding c unfolding s'
    by (simp add: IRQ_RES_def emit_def parent_path_trace fork_spawned_trace)
  moreover have "irq_events (cloned_events ops (current_directory s) (IRQ_OFF s)
       @ [EvSpawn (current_process s) (fst (fork_spawned ops s))]) = []"
    using irq_cloned_events [of ops "current_directory s" "IRQ_OFF s"]
    by (simp add: irq_events_def)
  ultimately show "\<exists>mid. trace s' = trace s @ EvIrqOff # mid @ [EvReady (last (ready_queue s')), EvIrqRes]
            \<and> irq_events mid = []"
    by blast
qed

text \<open>clone: the interrupt flag is never touched.\<close>

lemma clone_interrupts:
  assumes "clone ops stack_top stack_old eip_v s = Inr (pid, s')"
  shows "interrupts s' = interrupts s"
    and "irq_events (trace s') = irq_events (trace s)"
proof -
  note s' = clone_Inr(1) [OF assms]
  show "interrupts s' = interrupts s"
    unfolding s' by (simp add: parent_path_fields clone_spawned_fields)
  show "irq_events (trace s') = irq_events (trace s)"
    unfolding s' by (simp add: parent_path_trace clone_spawned_trace irq_events_def)
qed

subsection \<open>C1: the child's saved stack and frame pointers\<close>




subsection \<open>C7: the child's syscall\_registers pointer\<close>



subsection \<open>C10: clone does not read its arguments\<close>

text \<open>
  C10. \<^verbatim>\<open>clone\<close> never reads \<^verbatim>\<open>stack_top\<close> and \<^verbatim>\<open>stack_old\<close>: two calls from the
  same state give the same result (the same error, or the same return value and the
  same state), whatever the two arguments are.
\<close>

theorem clone_ignores_stack_arguments:
  "clone ops stack_top stack_old eip_v s = clone ops stack_top' stack_old' eip_v s"
  by (simp add: clone_def)

subsection \<open>C9: the early exits of switch\_task\<close>

text \<open>
  C9. When \<^verbatim>\<open>current_process\<close> is null, or when no process is available,
  \<^verbatim>\<open>switch_task\<close> returns with the state as it was: nothing is saved, enqueued or
  switched.
\<close>

theorem switch_task_early_exit:
  assumes "current_process s = 0 \<or> \<not> process_available s"
  shows "switch_task ops reschedule eip_v s = Inr s"
  using assms by (auto simp: switch_task_def)


text \<open>In the example no process is ready; in its variant tasking is not installed.\<close>

theorem switch_task_early_exit_witness:
  "\<not> process_available ex_state
   \<and> switch_task ex_ops 1 0x101234 ex_state = Inr ex_state
   \<and> current_process (ex_state\<lparr>current_process := 0, ready_queue := [0x300000]\<rparr>) = 0
   \<and> switch_task ex_ops 1 0x101234 (ex_state\<lparr>current_process := 0, ready_queue := [0x300000]\<rparr>)
       = Inr (ex_state\<lparr>current_process := 0, ready_queue := [0x300000]\<rparr>)"
proof -
  have a: "\<not> process_available ex_state"
    by (simp add: process_available_def)
  have b: "current_process (ex_state\<lparr>current_process := 0, ready_queue := [0x300000]\<rparr>) = 0"
    by simp
  show ?thesis
    using a b switch_task_early_exit [OF disjI2 [OF a], of ex_ops 1 "0x101234"]
      switch_task_early_exit [OF disjI1 [OF b], of ex_ops 1 "0x101234"]
    by blast
qed

subsection \<open>C5: the resumption arm of switch\_task\<close>

text \<open>A call that has passed the two guards continues with the code after
  \<^verbatim>\<open>read_eip()\<close>.\<close>

lemma switch_task_past_guards:
  "current_process s \<noteq> 0 \<Longrightarrow> process_available s \<Longrightarrow>
     switch_task ops reschedule eip_v s = switch_task_resume ops reschedule (cpu_esp s) (cpu_ebp s) eip_v s"
  by (simp add: switch_task_def)

text \<open>The events of \<open>reap_process\<close>.\<close>

lemma reap_process_trace:
  "trace (reap_process ops p s) =
     trace s @ [EvListFree (wait_queue (proc_heap s p)), EvFree (wait_queue (proc_heap s p)),
                EvFree (stack (image' (proc_heap s p)) - KERNEL_STACK_SIZE ops)]
       @ concat (map (entry_events s (page_directory (thread (proc_heap s p)))) [0..<1024])
       @ [EvFree (page_directory (thread (proc_heap s p))), EvFree (entries (fds (proc_heap s p)))]"
proof -
  let ?wq = "wait_queue (proc_heap s p)"
  let ?st = "stack (image' (proc_heap s p)) - KERNEL_STACK_SIZE ops"
  let ?d = "page_directory (thread (proc_heap s p))"
  let ?s3 = "free ?st (free ?wq (list_free ?wq s))"
  have ot: "only_trace s ?s3"
    unfolding list_free_def
    by (intro only_trace_trans [OF _ only_trace_free] only_trace_emit)
  have r: "reap_process ops p s = free (entries (fds (proc_heap s p))) (free_directory ?d ?s3)"
    by (simp add: reap_process_def Let_def list_free_def free_def emit_def
        only_trace_fields(1) [OF only_trace_free_directory])
  have e: "entry_events ?s3 ?d = entry_events s ?d"
    by (rule ext) (rule entry_events_inv [OF ot])
  have tf: "trace (free q u) = trace u @ [EvFree q]" for q u
    by (simp add: free_def emit_def)
  show ?thesis
    unfolding r tf free_directory_trace e by (simp add: list_free_def emit_def)
qed

text \<open>The example: \<^verbatim>\<open>switch_next\<close> in \<open>ex_exit\<close> resumes the process at
  \<open>0x200000\<close> in \<open>ex_reap\<close>; the directory at \<open>0x5000\<close> owns table 3 alone, and that
  table maps one frame.\<close>

lemma ex_switch_next: "switch_next ex_ops ex_exit = Inr ex_reap"
  by (simp add: switch_next_def next_ready_process_def Let_def set_kernel_stack_def image_stack_def
      ex_exit_def ex_reap_def ex_ops_def ex_state_def)

lemma ex_reap_fields:
  "reap_queue ex_reap = [0x280000, 0]" "ready_queue ex_reap = []" "trace ex_reap = []"
  "current_process ex_reap = 0x200000" "kernel_directory ex_reap = 0x3000"
  "wait_queue (proc_heap ex_reap 0x280000) = 0x600000"
  "stack (image' (proc_heap ex_reap 0x280000)) = 0x520000"
  "page_directory (thread (proc_heap ex_reap 0x280000)) = 0x5000"
  "entries (fds (proc_heap ex_reap 0x280000)) = 0x610000"
  "tables (dir_heap ex_reap 0x5000) i = (if i = 0 then 0x10000 else if i = 3 then 0x30000 else 0)"
  "tables (dir_heap ex_reap 0x3000) i = (if i = 0 then 0x10000 else 0)"
  "frame (get_page ex_reap 0x30000 j) = (if j = 7 then 0x456 else 0)"
  by (simp_all add: ex_reap_def ex_exit_def ex_state_def get_page_def zero_page_def)

lemma ex_reap_entry_events:
  "concat (map (entry_events ex_reap 0x5000) [0..<1024]) = [EvFreeFrame 0x456, EvFree 0x30000]"
proof -
  have p: "concat (map (page_events ex_reap 0x30000) [0..<1024]) = page_events ex_reap 0x30000 7"
    by (rule concat_map_single) (simp_all add: page_events_def ex_reap_fields)
  have "concat (map (entry_events ex_reap 0x5000) [0..<1024]) = entry_events ex_reap 0x5000 3"
    by (rule concat_map_single) (simp_all add: entry_events_def owned_def ex_reap_fields)
  also have "\<dots> = [EvFreeFrame 0x456, EvFree 0x30000]"
    by (simp add: entry_events_def owned_def ex_reap_fields p page_events_def)
  finally show ?thesis .
qed

lemma ex_reap_trace:
  "trace (reap_process ex_ops 0x280000 ex_reap) =
     [EvListFree 0x600000, EvFree 0x600000, EvFree 0x518000, EvFreeFrame 0x456,
      EvFree 0x30000, EvFree 0x5000, EvFree 0x610000]"
  by (simp add: reap_process_trace ex_reap_fields ex_reap_entry_events)

text \<open>
  C5. When control reaches the code after \<^verbatim>\<open>read_eip()\<close> with \<^verbatim>\<open>0x10000\<close> as the
  value returned, in whatever state (the guards of lines 299-306 are not run on the way,
  so the ready queue may be empty), \<^verbatim>\<open>switch_task\<close> returns after the reaping loop: it
  has called \<open>reap_process\<close> on every non-null process of the reapable queue, in
  order, and has emptied the queue. Apart from the queue, only the trace has changed: no
  register is stored in \<^verbatim>\<open>current_process->thread\<close>, the ready queue is as it was,
  and the current process, directory and machine registers are as they were
  (\<open>switch_next\<close> would have replaced them).
\<close>

theorem switch_task_resumption_arm:
  "switch_task_resume ops reschedule esp_v ebp_v 0x10000 s
       = Inr ((reap_each ops (reap_queue s) s)\<lparr>reap_queue := []\<rparr>)
   \<and> only_trace s (reap_each ops (reap_queue s) s)"
  by (simp add: switch_task_resume_def reap_loop_eq [OF refl] only_trace_reap_each)

text \<open>In the example the exiting process has called \<^verbatim>\<open>switch_next\<close>, and the process at
  \<open>0x200000\<close> is resumed with no process ready. The loop reaps the process at
  \<open>0x280000\<close> (its wait queue, its kernel stack, the frame and the table its directory
  owns, the directory and its descriptor table) and skips the null entry; the table
  at \<open>0x10000\<close>, shared with the kernel directory, is not freed.\<close>

theorem switch_task_resumption_arm_witness:
  "switch_next ex_ops ex_exit = Inr ex_reap
   \<and> \<not> process_available ex_reap
   \<and> cpu_eax ex_reap = 0x10000
   \<and> switch_task_resume ex_ops 1 0x4FFE00 0x4FFE40 0x10000 ex_reap
        = Inr (ex_reap\<lparr>reap_queue := [],
             trace := [EvListFree 0x600000, EvFree 0x600000, EvFree 0x518000, EvFreeFrame 0x456,
                       EvFree 0x30000, EvFree 0x5000, EvFree 0x610000]\<rparr>)"
proof -
  have e: "reap_each ex_ops (reap_queue ex_reap) ex_reap = reap_process ex_ops 0x280000 ex_reap"
    by (simp add: reap_each_def ex_reap_fields)
  from switch_task_resumption_arm [of ex_ops 1 "0x4FFE00" "0x4FFE40" ex_reap]
  have r: "switch_task_resume ex_ops 1 0x4FFE00 0x4FFE40 0x10000 ex_reap
        = Inr ((reap_process ex_ops 0x280000 ex_reap)\<lparr>reap_queue := []\<rparr>)"
    and ot: "only_trace ex_reap (reap_process ex_ops 0x280000 ex_reap)"
    unfolding e by simp_all
  have "reap_process ex_ops 0x280000 ex_reap
      = ex_reap\<lparr>trace := trace (reap_process ex_ops 0x280000 ex_reap)\<rparr>"
    using ot unfolding only_trace_def .
  then have s: "(reap_process ex_ops 0x280000 ex_reap)\<lparr>reap_queue := []\<rparr>
      = ex_reap\<lparr>reap_queue := [], trace := [EvListFree 0x600000, EvFree 0x600000, EvFree 0x518000,
          EvFreeFrame 0x456, EvFree 0x30000, EvFree 0x5000, EvFree 0x610000]\<rparr>"
    unfolding ex_reap_trace by simp
  have a: "\<not> process_available ex_reap" "cpu_eax ex_reap = 0x10000"
    by (simp_all add: process_available_def ex_reap_def)
  show ?thesis
    using ex_switch_next a r unfolding s by simp
qed

subsection \<open>C2: fork returns twice\<close>

text \<open>
  C2. Let \<^verbatim>\<open>fork\<close>, called by a running process, return to the parent. The value it
  returns is the pid of the process it has spawned and enqueued, and the saved
  \<^verbatim>\<open>thread.eip\<close> of that process is the address \<^verbatim>\<open>read_eip()\<close> returned.
  When \<^verbatim>\<open>switch_next\<close> later takes the child from the head of the ready queue, with
  the child's record and its copy of the frame still as \<^verbatim>\<open>fork\<close> left them, execution
  resumes at that address with the child as \<^verbatim>\<open>current_process\<close>; there
  \<^verbatim>\<open>current_process\<close> differs from the captured parent, and \<^verbatim>\<open>fork\<close> returns 0.

  The side conditions: the record \<^verbatim>\<open>spawn_process\<close> returned is not the parent's own,
  the frame of \<^verbatim>\<open>fork\<close> lies in the parent's kernel stack region (so the copy of the
  stack holds it), and the return address lies in the kernel text (\<^verbatim>\<open>switch_next\<close>
  asserts it).
\<close>

theorem fork_returns_twice:
  assumes run: "fork ops eip_v s = Inr (pid, s')"
    and ne: "last (ready_queue s') \<noteq> current_process s"
    and frame_in: "in_kernel_stack ops (image_stack s (current_process s)) (cpu_ebp s)"
    and intext: "code_start ops < eip_v" "eip_v < code_end ops"
    and q: "ready_queue t = last (ready_queue s') # q"
    and same: "proc_heap t (last (ready_queue s')) = proc_heap s' (last (ready_queue s'))"
    and mem: "stack_mem t (ebp (thread (proc_heap s' (last (ready_queue s')))))
                = stack_mem s' (ebp (thread (proc_heap s' (last (ready_queue s')))))"
  shows "pid = id' (proc_heap s' (last (ready_queue s')))
       \<and> eip (thread (proc_heap s' (last (ready_queue s')))) = eip_v
       \<and> (\<exists>t'. switch_next ops t = Inr t'
              \<and> current_process t' = last (ready_queue s')
              \<and> cpu_eip t' = eip_v
              \<and> current_process t' \<noteq> l_parent (stack_mem t' (cpu_ebp t'))
              \<and> fork_resume ops (cpu_eax t') t' = Inr (0, t'))"
proof -
  let ?c = "fst (fork_spawned ops s)" and ?s4 = "snd (fork_spawned ops s)"
  note s' = fork_Inr(1) [OF run]
  have c: "last (ready_queue s') = ?c"
    unfolding s' by (simp add: IRQ_RES_fields parent_path_fields)
  have ph: "proc_heap s' = proc_heap (parent_path ops eip_v ?c ?s4)"
    and sm: "stack_mem s' = stack_mem (parent_path ops eip_v ?c ?s4)"
    unfolding s' by (simp_all add: IRQ_RES_def emit_def)
  have pid: "pid = id' (proc_heap s' ?c)"
    by (rule fork_Inr(2) [OF run])
  have eip: "eip (thread (proc_heap s' ?c)) = eip_v"
    unfolding ph by (rule parent_path_child_eip)
  have ne': "?c \<noteq> current_process s"
    using ne unfolding c .
  have "image_stack ?s4 (current_process ?s4) = image_stack s (current_process s)"
    using fork_spawned_other [of "current_process s" ops s] ne'
    by (simp add: image_stack_def fork_spawned_fields)
  with frame_in have fin: "in_kernel_stack ops (image_stack ?s4 (current_process ?s4)) (cpu_ebp ?s4)"
    by (simp add: fork_spawned_fields)
  have fr: "stack_mem s' (ebp (thread (proc_heap s' ?c))) =
      \<lparr>l_magic = TASK_MAGIC, l_parent = current_process s,
       l_directory = fst (clone_directory ops (current_directory s) (IRQ_OFF s)),
       l_new_proc = ?c\<rparr>"
    unfolding ph sm parent_path_child_frame [OF fin]
    by (simp add: fork_spawned_fields fork_spawned_frame)
  from switch_next_head [of t ?c q ops] q intext same eip
  obtain t' where t': "switch_next ops t = Inr t'" "current_process t' = ?c"
      "cpu_eip t' = eip_v" "cpu_ebp t' = ebp (thread (proc_heap s' ?c))" "cpu_eax t' = 0x10000"
      "stack_mem t' = stack_mem t"
    unfolding c by auto
  have frt: "stack_mem t' (cpu_ebp t') =
      \<lparr>l_magic = TASK_MAGIC, l_parent = current_process s,
       l_directory = fst (clone_directory ops (current_directory s) (IRQ_OFF s)),
       l_new_proc = ?c\<rparr>"
    using mem fr unfolding t' c by simp
  have res: "fork_resume ops (cpu_eax t') t' = Inr (0, t')"
    unfolding fork_resume_def Let_def frt using ne' by (simp add: t')
  show ?thesis
    unfolding c using pid eip t' res ne' frt by auto
qed


text \<open>In the example the child is alone in the ready queue when \<^verbatim>\<open>fork\<close> returns,
  and \<^verbatim>\<open>fork\<close> has returned 1 to the parent.\<close>

theorem fork_returns_twice_witness:
  "\<exists>pid s'. fork ex_ops 0x101234 ex_state = Inr (pid, s')
     \<and> last (ready_queue s') \<noteq> current_process ex_state
     \<and> in_kernel_stack ex_ops (image_stack ex_state (current_process ex_state)) (cpu_ebp ex_state)
     \<and> code_start ex_ops < 0x101234 \<and> 0x101234 < code_end ex_ops
     \<and> ready_queue s' = [last (ready_queue s')]
     \<and> pid = 1
     \<and> eip (thread (proc_heap s' 0x300000)) = 0x101234
     \<and> (\<exists>t'. switch_next ex_ops s' = Inr t' \<and> current_process t' = 0x300000
            \<and> cpu_eip t' = 0x101234 \<and> fork_resume ex_ops (cpu_eax t') t' = Inr (0, t'))"
proof -
  let ?s' = "IRQ_RES (parent_path ex_ops 0x101234 0x300000 (snd (fork_spawned ex_ops ex_state)))"
  let ?pid = "id' (proc_heap (parent_path ex_ops 0x101234 0x300000 (snd (fork_spawned ex_ops ex_state))) 0x300000)"
  have run: "fork ex_ops 0x101234 ex_state = Inr (?pid, ?s')"
    by (rule ex_fork)
  have rq: "ready_queue ?s' = [0x300000]"
    by (simp add: IRQ_RES_fields parent_path_fields fork_spawned_fields)
  have c: "last (ready_queue ?s') = 0x300000"
    unfolding rq by simp
  have ne: "last (ready_queue ?s') \<noteq> current_process ex_state"
    unfolding c by simp
  have fin: "in_kernel_stack ex_ops (image_stack ex_state (current_process ex_state)) (cpu_ebp ex_state)"
    by (simp add: in_kernel_stack_def image_stack_def zero_process_def)
  have t1: "code_start ex_ops < 0x101234" and t2: "0x101234 < code_end ex_ops"
    by simp_all
  have q: "ready_queue ?s' = last (ready_queue ?s') # []"
    unfolding c rq by simp
  have id1: "id' (proc_heap ?s' 0x300000) = 1"
    unfolding IRQ_RES_fields
    using fork_spawned_child_record [of ex_ops ex_state]
    by (simp add: parent_path_def Let_def make_process_ready_def emit_def upd_proc_def
        move_syscall_registers_def set_child_esp_ebp_def fork_spawned_child zero_process_def)
  from fork_returns_twice [OF run ne fin t1 t2 q refl refl]
  have "?pid = 1 \<and> eip (thread (proc_heap ?s' 0x300000)) = 0x101234
     \<and> (\<exists>t'. switch_next ex_ops ?s' = Inr t' \<and> current_process t' = 0x300000
            \<and> cpu_eip t' = 0x101234 \<and> fork_resume ex_ops (cpu_eax t') t' = Inr (0, t'))"
    unfolding c id1 by blast
  with run ne fin t1 t2 rq c show ?thesis
    by (intro exI [of _ ?pid] exI [of _ ?s']) simp
qed

subsection \<open>C6: interrupts during fork and clone\<close>

text \<open>
  C6. \<^verbatim>\<open>fork\<close> begins with \<^verbatim>\<open>IRQ_OFF\<close> and ends its parent path with
  \<^verbatim>\<open>IRQ_RES\<close>; \<^verbatim>\<open>clone\<close> holds neither. Called in the example state, where
  interrupts are enabled, \<^verbatim>\<open>clone\<close> spawns the child and enqueues it as ready with
  interrupts enabled throughout: its three events are the \<^verbatim>\<open>kprintf\<close>, the spawn and
  the enqueueing, and no \<open>EvIrqOff\<close> or \<open>EvIrqRes\<close> is among them.
\<close>

theorem clone_keeps_interrupts_enabled:
  "\<exists>pid s'. clone ex_ops 0 0 0x101234 ex_state = Inr (pid, s')
     \<and> interrupts ex_state \<and> interrupts s'
     \<and> trace s' = [EvKprintf 0, EvSpawn 0x200000 0x300000, EvReady 0x300000]"
proof -
  have c: "fst (clone_spawned ex_ops ex_state) = 0x300000"
    by (simp add: clone_spawned_child)
  have r: "regs_esp ex_state p = 0" for p
    unfolding ex_state_def by simp
  show ?thesis
    by (simp add: clone_eq c parent_path_trace parent_path_fields clone_spawned_fields
        clone_spawned_trace r)
qed

subsection \<open>C8: clone\_table\<close>

text \<open>
  What \<^verbatim>\<open>clone_table\<close> does. Let the new table not lie at the address of the source
  table. For every entry \<open>j\<close> of the source table: when its frame field is zero, the
  entry of the new table stays zero, and nothing is allocated or copied for it; when it
  is not, \<^verbatim>\<open>clone_table\<close> calls \<^verbatim>\<open>alloc_frame\<close> on the new entry, sets each of the
  bits present, rw, user, accessed and dirty that is set in the source entry, and
  requests the copy of the source frame to the new frame. The events of the call are the
  \<^verbatim>\<open>kvmalloc_p\<close> and then, for each entry with a frame, in order, one
  \<^verbatim>\<open>alloc_frame\<close> and one \<^verbatim>\<open>copy_page_physical\<close>. A source table whose frame
  fields are all zero gives a table whose entries are all zero, with no frame allocated.
\<close>

lemma clone_table_entries:
  assumes ne: "fst (clone_table ops src s) \<noteq> src" and j: "j < 1024"
  defines "table \<equiv> fst (clone_table ops src s)"
    and "s' \<equiv> snd (snd (clone_table ops src s))"
    and "new_page \<equiv> \<lambda>j. round_page ops (fst (clone_table ops src s)) j
           (clone_table_loop ops src (fst (clone_table ops src s)) j (snd (snd (clone_table_init ops s))))"
  shows "(frame (get_page s src j) = 0 \<longrightarrow> get_page s' table j = zero_page)
       \<and> (frame (get_page s src j) \<noteq> 0 \<longrightarrow>
            get_page s' table j = mirror_bits (get_page s src j) (new_page j))
       \<and> trace s' = trace s @ EvKvmalloc sizeof_page_table_t table (fst (snd (clone_table ops src s)))
            # concat (map (\<lambda>j. round_events (get_page s src j) (new_page j)) [0..<1024])
       \<and> ((\<forall>i<1024. frame (get_page s src i) = 0) \<longrightarrow>
            (\<forall>i<1024. get_page s' table i = zero_page)
            \<and> trace s' = trace s @ [EvKvmalloc sizeof_page_table_t table (fst (snd (clone_table ops src s)))])"
proof -
  have tr: "trace s' = trace s @ EvKvmalloc sizeof_page_table_t table (fst (snd (clone_table ops src s)))
            # concat (map (\<lambda>j. round_events (get_page s src j) (new_page j)) [0..<1024])"
    unfolding s'_def table_def new_page_def by (rule clone_table_trace [OF ne])
  have pg: "get_page s' table i =
     (if frame (get_page s src i) = 0 then zero_page else mirror_bits (get_page s src i) (new_page i))"
    if "i < 1024" for i
    unfolding s'_def table_def new_page_def by (rule clone_table_page [OF ne that])
  have "concat (map (\<lambda>j. round_events (get_page s src j) (new_page j)) [0..<1024]) = []"
    if "\<forall>i<1024. frame (get_page s src i) = 0"
    using that by (intro concat_map_Nil) (simp add: round_events_zero)
  with tr pg j show ?thesis by simp
qed

text \<open>
  C8. Lines 106-111, under the comment \<^verbatim>\<open>Set the correct access bit\<close>, copy each of
  the five bits from the source entry only when it is set there: a bit that
  \<^verbatim>\<open>alloc_frame(&table->pages[i], 0, 0)\<close> has set and the source entry has clear is
  never cleared. In the example the frame allocator, asked for a page that is neither
  for the kernel nor writable, marks it present and user-accessible. Entry 5 of the
  table at \<open>0x20000\<close> has a frame and is present, writable, dirty and kernel-only.
  Its clone gets the writable and the dirty bit of the source, and keeps the user bit of
  the allocator: a kernel-only page is cloned user-accessible, and the access bits of the
  new entry are not those of the source.
\<close>

theorem clone_table_sets_user_bit:
  "fst (clone_table ex_ops 0x20000 ex_state) = 0x400000
   \<and> get_page ex_state 0x20000 5 =
        \<lparr>present = True, rw = True, user = False, accessed = False, dirty = True, frame = 0x123\<rparr>
   \<and> get_page (snd (snd (clone_table ex_ops 0x20000 ex_state))) 0x400000 5 =
        \<lparr>present = True, rw = True, user = True, accessed = False, dirty = True, frame = 0x101\<rparr>
   \<and> trace (snd (snd (clone_table ex_ops 0x20000 ex_state))) =
        [EvKvmalloc 4096 0x400000 0x400000,
         EvAllocFrame \<lparr>present = True, rw = False, user = True, accessed = False, dirty = False, frame = 0x101\<rparr>,
         EvCopyPage 0x123000 0x101000]"
proof -
  let ?s1 = "snd (snd (clone_table_init ex_ops ex_state))"
  have p: "fst (clone_table ex_ops 0x20000 ex_state) = 0x400000"
    by (rule ex_clone_table_ptr)
  have ne: "fst (clone_table ex_ops 0x20000 ex_state) \<noteq> 0x20000"
    by (simp add: p)
  have src1: "get_page ?s1 0x20000 j = get_page ex_state 0x20000 j" for j
    using clone_table_init_pages(2) [of "0x20000" ex_ops ex_state j] p
    by (simp add: fst_clone_table)
  have tr5: "trace (clone_table_loop ex_ops 0x20000 0x400000 5 ?s1) = trace ?s1"
    by (rule clone_table_loop_trace_zero) (simp_all add: src1 zero_page_def)
  have len: "length (trace ?s1) = 1"
    by (simp add: clone_table_init_trace)
  have np: "round_page ex_ops 0x400000 5 (clone_table_loop ex_ops 0x20000 0x400000 5 ?s1) =
      \<lparr>present = True, rw = False, user = True, accessed = False, dirty = False, frame = 0x101\<rparr>"
    using clone_table_loop_later [of "0x400000" "0x20000" 5 5 ex_ops ?s1]
      clone_table_init_pages(1) [of ex_ops ex_state 5, unfolded p [unfolded fst_clone_table]]
    by (simp add: round_page_def ex_frame_def tr5 len zero_page_def)
  have ev: "concat (map (\<lambda>j. round_events (get_page ex_state 0x20000 j)
          (round_page ex_ops 0x400000 j (clone_table_loop ex_ops 0x20000 0x400000 j ?s1))) [0..<1024])
        = round_events (get_page ex_state 0x20000 5)
          (round_page ex_ops 0x400000 5 (clone_table_loop ex_ops 0x20000 0x400000 5 ?s1))"
    by (rule concat_map_single) (simp_all add: round_events_zero zero_page_def)
  have phys: "fst (snd (clone_table ex_ops 0x20000 ex_state)) = 0x400000"
    by (simp add: fst_clone_table clone_table_init_eq ex_block_def)
  from clone_table_entries [OF ne, of 5]
  have "get_page (snd (snd (clone_table ex_ops 0x20000 ex_state))) 0x400000 5 =
        \<lparr>present = True, rw = True, user = True, accessed = False, dirty = True, frame = 0x101\<rparr>
   \<and> trace (snd (snd (clone_table ex_ops 0x20000 ex_state))) =
        [EvKvmalloc 4096 0x400000 0x400000,
         EvAllocFrame \<lparr>present = True, rw = False, user = True, accessed = False, dirty = False, frame = 0x101\<rparr>,
         EvCopyPage 0x123000 0x101000]"
    unfolding p ev np phys
    by (simp add: mirror_bits_def round_events_def sizeof_page_table_t_def)
  with p show ?thesis by simp
qed

subsection \<open>C3: clone\_directory\<close>




subsection \<open>C4: clone\_directory followed by free\_directory\<close>

text \<open>
  C4. Let \<^verbatim>\<open>free_directory\<close> be called on the result of \<^verbatim>\<open>clone_directory\<close>, right
  after it. Let the kernel heap have handed out fresh blocks during the clone
  (\<open>fresh_blocks\<close>), and let \<^verbatim>\<open>alloc_frame\<close> never hand out frame 0. Then
  \<^item> the frames passed to \<^verbatim>\<open>free_frame\<close> are the frames that \<^verbatim>\<open>alloc_frame\<close>
    handed out during the clone, in the same order;
  \<^item> the blocks passed to \<^verbatim>\<open>free\<close> are the blocks \<^verbatim>\<open>kvmalloc_p\<close> handed out during
    the clone: the cloned tables in order, and the directory, which was allocated first,
    last;
  \<^item> no table that the new directory shares with the kernel directory
    (\<^verbatim>\<open>kernel_directory->tables[i] == dir->tables[i]\<close>) is passed to \<^verbatim>\<open>free\<close>.
\<close>

theorem clone_then_free_returns_everything:
  assumes fresh: "fresh_blocks ops src s"
    and nz: "\<forall>s pg k w. frame (alloc_frame ops s pg k w) \<noteq> 0"
  defines "dir \<equiv> fst (clone_directory ops src s)"
    and "s1 \<equiv> snd (clone_directory ops src s)"
  shows "frames_freed (freed_events ops src s) = frames_allocated (cloned_events ops src s)
       \<and> blocks_allocated (cloned_events ops src s) = dir # tl (blocks_allocated (cloned_events ops src s))
       \<and> blocks_freed (freed_events ops src s) = tl (blocks_allocated (cloned_events ops src s)) @ [dir]
       \<and> (\<forall>i<1024. tables (dir_heap s1 (kernel_directory s1)) i = tables (dir_heap s1 dir) i \<longrightarrow>
             tables (dir_heap s1 dir) i \<notin> set (blocks_freed (freed_events ops src s)))"
proof -
  let ?deep = "filter (deep src s) [0..<1024]"
  note d = fresh_blocks_dir [OF fresh]
  have dir: "dir = fst (clone_directory_init ops s)"
    unfolding dir_def clone_directory_split ..
  have own: "(if owned s1 dir i then f i else []) = (if deep src s i then f i else [])"
    if "i \<in> set [0..<1024]" for i and f :: "nat \<Rightarrow> 'a list"
    using that owned_after_clone(1) [OF fresh, of i] unfolding s1_def dir_def by simp
  have tab: "tables (dir_heap s1 dir) i = new_table ops src s i" if "i \<in> set ?deep" for i
    using that owned_after_clone(2) [OF fresh, of i] unfolding s1_def dir_def by simp
  \<comment> \<open>frames\<close>
  have "frames_freed (freed_events ops src s) =
      concat (map (\<lambda>i. if owned s1 dir i then table_frames s1 (tables (dir_heap s1 dir) i) else []) [0..<1024])"
    unfolding freed_trace s1_def dir_def
    by (simp add: projections_concat frames_freed_entry_events)
  also have "\<dots> = concat (map (\<lambda>i. if deep src s i then table_frames s1 (tables (dir_heap s1 dir) i) else []) [0..<1024])"
    by (rule arg_cong [where f = concat], rule map_cong [OF refl]) (rule own)
  also have "\<dots> = concat (map (\<lambda>i. table_frames s1 (tables (dir_heap s1 dir) i)) ?deep)"
    by (rule concat_map_if_filter)
  also have "\<dots> = concat (map (\<lambda>i. table_frames s1 (new_table ops src s i)) ?deep)"
    by (rule arg_cong [where f = concat], rule map_cong [OF refl]) (simp add: tab)
  finally have ff: "frames_freed (freed_events ops src s) =
      concat (map (\<lambda>i. table_frames s1 (new_table ops src s i)) ?deep)" .
  have "frames_allocated (trace s1) = frames_allocated (trace s)
      @ concat (map (\<lambda>i. table_frames s1 (new_table ops src s i)) ?deep)"
    unfolding s1_def dir_round_final by (rule dir_round_frames [OF fresh nz]) simp
  then have fa: "frames_allocated (cloned_events ops src s) =
      concat (map (\<lambda>i. table_frames s1 (new_table ops src s i)) ?deep)"
    unfolding s1_def cloned_trace by simp
  \<comment> \<open>blocks\<close>
  have ba: "blocks_allocated (cloned_events ops src s) = dir # map (new_table ops src s) ?deep"
    unfolding dir by (rule cloned_blocks [OF fresh])
  have "blocks_freed (freed_events ops src s) =
      concat (map (\<lambda>i. if owned s1 dir i then [tables (dir_heap s1 dir) i] else []) [0..<1024]) @ [dir]"
    unfolding freed_trace s1_def dir_def
    by (simp add: projections_concat blocks_freed_entry_events)
  also have "concat (map (\<lambda>i. if owned s1 dir i then [tables (dir_heap s1 dir) i] else []) [0..<1024])
      = concat (map (\<lambda>i. if deep src s i then [tables (dir_heap s1 dir) i] else []) [0..<1024])"
    by (rule arg_cong [where f = concat], rule map_cong [OF refl]) (rule own)
  also have "\<dots> = concat (map (\<lambda>i. [tables (dir_heap s1 dir) i]) ?deep)"
    by (rule concat_map_if_filter)
  also have "\<dots> = map (\<lambda>i. tables (dir_heap s1 dir) i) ?deep"
    by simp
  also have "\<dots> = map (new_table ops src s) ?deep"
    by (rule map_cong [OF refl]) (rule tab)
  finally have bf: "blocks_freed (freed_events ops src s) = map (new_table ops src s) ?deep @ [dir]" .
  \<comment> \<open>shared tables\<close>
  have shared: "tables (dir_heap s1 dir) i \<notin> set (blocks_freed (freed_events ops src s))"
    if i: "i < 1024" and eq: "tables (dir_heap s1 (kernel_directory s1)) i = tables (dir_heap s1 dir) i" for i
  proof -
    have nd: "\<not> deep src s i"
      using owned_after_clone(1) [OF fresh i] eq unfolding owned_def s1_def dir_def by auto
    have K: "tables (dir_heap s1 (kernel_directory s1)) i = tables (dir_heap s (kernel_directory s)) i"
      unfolding s1_def dir_round_final by (simp add: dir_round_reads [OF d(1,2)])
    have "p \<noteq> tables (dir_heap s (kernel_directory s)) i"
      if "p \<in> set (blocks_allocated (cloned_events ops src s))" for p
      using that fresh i unfolding fresh_blocks_def by blast
    then have "tables (dir_heap s (kernel_directory s)) i \<notin> set (dir # map (new_table ops src s) ?deep)"
      unfolding ba by blast
    then show ?thesis
      unfolding bf eq [symmetric] K by auto
  qed
  show ?thesis
    using ff fa ba bf shared by simp
qed


text \<open>In the example the clone allocates the directory, one table and one frame, and the
  table shared with the kernel directory (at \<open>0x10000\<close>) is not freed.\<close>

theorem clone_then_free_returns_everything_witness:
  "fresh_blocks ex_ops 0x1000 ex_state
   \<and> (\<forall>s pg k w. frame (alloc_frame ex_ops s pg k w) \<noteq> 0)
   \<and> frames_allocated (cloned_events ex_ops 0x1000 ex_state) = [0x102]
   \<and> frames_freed (freed_events ex_ops 0x1000 ex_state) = [0x102]
   \<and> blocks_allocated (cloned_events ex_ops 0x1000 ex_state) = [0x400000, 0x404000]
   \<and> blocks_freed (freed_events ex_ops 0x1000 ex_state) = [0x404000, 0x400000]
   \<and> tables (dir_heap (snd (clone_directory ex_ops 0x1000 ex_state)) 0x400000) 0 = 0x10000
   \<and> 0x10000 \<notin> set (blocks_freed (freed_events ex_ops 0x1000 ex_state))"
proof -
  have nz: "\<forall>s pg k w. frame (alloc_frame ex_ops s pg k w) \<noteq> 0"
    by simp
  have d: "fst (clone_directory ex_ops 0x1000 ex_state) = 0x400000"
    by (simp add: clone_directory_split ex_clone_directory_ptr)
  have fa: "frames_allocated (cloned_events ex_ops 0x1000 ex_state) = [0x102]"
    unfolding ex_cloned_events by simp
  have t0: "tables (dir_heap (snd (clone_directory ex_ops 0x1000 ex_state)) 0x400000) 0 = 0x10000"
    using dir_round_tables [OF ex_dir_ne, of 0 1024]
    by (simp add: dir_round_final ex_clone_directory_ptr ex_deep)
  from clone_then_free_returns_everything [OF ex_fresh_blocks nz]
  have "frames_freed (freed_events ex_ops 0x1000 ex_state) = [0x102]
    \<and> blocks_freed (freed_events ex_ops 0x1000 ex_state) = [0x404000, 0x400000]"
    unfolding fa ex_cloned_blocks d by simp
  with ex_fresh_blocks nz fa ex_cloned_blocks t0 show ?thesis
    by simp
qed

end
